theory Spec2Isabelle
  imports Complex_Main
begin

section \<open>Dynamic wave conduit flow (dwflow.c)\<close>

text \<open>
  The solver works on C doubles. In this part they are modelled by the type \<open>real\<close>:
  arithmetic is exact, and rounding, overflow, infinities and NaN are not represented.
  The one exception is the sign test of the under-relaxation block, where a product
  that underflows to zero changes the branch taken; it is modelled with its underflow.
  The C macros \<open>MIN\<close> and \<open>MAX\<close> are \<open>min\<close> and \<open>max\<close>, \<open>fabs\<close> is the
  absolute value, and \<open>pow\<close> is \<open>powr\<close>.
\<close>

subsection \<open>Data model\<close>

datatype FlowClassType =
  DRY | UP_DRY | DN_DRY | SUBCRITICAL | SUPCRITICAL | UP_CRITICAL | DN_CRITICAL

datatype NodeType = JUNCTION | OUTFALL | STORAGE | DIVIDER

datatype InertDampingType = NO_DAMPING | PARTIAL_DAMPING | FULL_DAMPING

datatype NormalFlowType = SLOPE | FROUDE | BOTH

text \<open>
  The fields of the project structures that dwflow.c reads or writes. Two source fields
  share a name with another structure's field and carry a suffix here: \<open>type\<close> of a
  cross section and of a node, \<open>newDepth\<close> of a node and of a link.
\<close>

record TXsect =
  type_xsect :: int
  culvertCode :: int
  yFull :: real
  aFull :: real

record TNode =
  type_node :: NodeType
  invertElev :: real
  newDepth_node :: real

record TLink =
  node1 :: nat
  node2 :: nat
  subIndex :: nat
  offset1 :: real
  offset2 :: real
  xsect :: TXsect
  setting :: real
  oldFlow :: real
  qLimit :: real
  cLossInlet :: real
  cLossOutlet :: real
  cLossAvg :: real
  flowClass :: FlowClassType
  froude :: real
  dqdh :: real
  newDepth_link :: real
  newVolume :: real
  newFlow :: real
  surfArea1 :: real
  surfArea2 :: real
  inletControl :: bool
  normalFlow :: bool

record TConduit =
  barrels :: nat
  modLength :: real
  roughFactor :: real
  beta :: real
  hasLosses :: bool
  q1 :: real
  q2 :: real
  a1 :: real
  a2 :: real
  fullState :: int

record SWMM_Project =
  Link :: "nat \<Rightarrow> TLink"
  Conduit :: "nat \<Rightarrow> TConduit"
  Node :: "nat \<Rightarrow> TNode"
  InertDamping :: InertDampingType
  NormalFlowLtd :: NormalFlowType

text \<open>
  The constants of headers.h that dwflow.c uses are not part of the sources at hand.
  They are parameters of the model: every function below takes them in a record.
\<close>

record THeaders =
  FUDGE :: real
  GRAVITY :: real
  FORCE_MAIN :: int

text \<open>
  The functions of other modules that dwflow.c calls are parameters as well, with the
  arguments the call sites pass (the project pointer left out). The culvert routine
  returns the limited flow together with the value it leaves in the link's
  \<open>inletControl\<close> flag.
\<close>

record THelpers =
  xsect_getAofY :: "TXsect \<Rightarrow> real \<Rightarrow> real"
  xsect_getWofY :: "TXsect \<Rightarrow> real \<Rightarrow> real"
  xsect_getRofY :: "TXsect \<Rightarrow> real \<Rightarrow> real"
  xsect_isOpen :: "int \<Rightarrow> bool"
  link_getLength :: "nat \<Rightarrow> real"
  link_getFroude :: "nat \<Rightarrow> real \<Rightarrow> real \<Rightarrow> real"
  link_getYnorm :: "nat \<Rightarrow> real \<Rightarrow> real"
  link_getYcrit :: "nat \<Rightarrow> real \<Rightarrow> real"
  link_getLossRate :: "nat \<Rightarrow> real \<Rightarrow> real \<Rightarrow> real"
  link_setFlapGate :: "nat \<Rightarrow> nat \<Rightarrow> nat \<Rightarrow> real \<Rightarrow> bool"
  link_getFullState :: "real \<Rightarrow> real \<Rightarrow> real \<Rightarrow> int"
  forcemain_getFricSlope :: "nat \<Rightarrow> real \<Rightarrow> real \<Rightarrow> real"
  culvert_getInflow :: "nat \<Rightarrow> real \<Rightarrow> real \<Rightarrow> real \<times> bool"

definition MAXVELOCITY :: real where
  "MAXVELOCITY = 50"

definition SGN :: "real \<Rightarrow> real" where
  \<comment> \<open>Modelled from the spec: the macro SGN of the missing headers, the sign of its
      argument. Every call site passes a non-zero value.\<close>
  "SGN x = (if x < 0 then - 1 else 1)"

text \<open>Writing one element of the link and conduit arrays.\<close>

definition upd_Link :: "SWMM_Project \<Rightarrow> nat \<Rightarrow> (TLink \<Rightarrow> TLink) \<Rightarrow> SWMM_Project" where
  "upd_Link sp j f = sp\<lparr>Link := (Link sp)(j := f (Link sp j))\<rparr>"

definition upd_Conduit :: "SWMM_Project \<Rightarrow> nat \<Rightarrow> (TConduit \<Rightarrow> TConduit) \<Rightarrow> SWMM_Project" where
  "upd_Conduit sp k f = sp\<lparr>Conduit := (Conduit sp)(k := f (Conduit sp k))\<rparr>"

subsection \<open>Cross-section geometry\<close>

definition getWidth :: "THelpers \<Rightarrow> TXsect \<Rightarrow> real \<Rightarrow> real" where
  "getWidth hp xs y =
    (let yNorm = y / yFull xs;
         y = (if yNorm > 0.96 \<and> \<not> xsect_isOpen hp (type_xsect xs) then 0.96 * yFull xs else y)
     in xsect_getWofY hp xs y)"

definition getArea :: "THelpers \<Rightarrow> TXsect \<Rightarrow> real \<Rightarrow> real" where
  "getArea hp xs y = (let y = min y (yFull xs) in xsect_getAofY hp xs y)"

definition getHydRad :: "THelpers \<Rightarrow> TXsect \<Rightarrow> real \<Rightarrow> real" where
  "getHydRad hp xs y = (let y = min y (yFull xs) in xsect_getRofY hp xs y)"

subsection \<open>Flow classification\<close>

text \<open>
  \<open>getFlowClass\<close> receives the project and three pointers. The model returns the
  project as the function leaves it, the flow class, and the values behind \<open>yC\<close>,
  \<open>yN\<close> and \<open>fasnh\<close> on return. \<open>yC\<close> and \<open>yN\<close> are written in some branches
  only, so their values on entry are arguments; \<open>fasnh\<close> is always written first.
\<close>

definition getFlowClass ::
  "THeaders \<Rightarrow> THelpers \<Rightarrow> SWMM_Project \<Rightarrow> nat \<Rightarrow> real \<Rightarrow> real \<Rightarrow> real \<Rightarrow> real \<Rightarrow> real \<Rightarrow>
   real \<Rightarrow> real \<Rightarrow> SWMM_Project \<times> FlowClassType \<times> real \<times> real \<times> real" where
  "getFlowClass c hp sp j q h1 h2 y1 y2 yC yN =
    (let n1 = node1 (Link sp j);
         n2 = node2 (Link sp j);
         z1 = offset1 (Link sp j);
         z2 = offset2 (Link sp j);
         z1 = (if type_node (Node sp n1) = OUTFALL
               then max 0 (z1 - newDepth_node (Node sp n1)) else z1);
         z2 = (if type_node (Node sp n2) = OUTFALL
               then max 0 (z2 - newDepth_node (Node sp n2)) else z2);
         flowClass = SUBCRITICAL;
         fasnh = 1
     in
       if y1 > FUDGE c \<and> y2 > FUDGE c then
         (if q < 0 then
            (if z1 > 0 then
               (let yN = link_getYnorm hp j \<bar>q\<bar>;
                    yC = link_getYcrit hp j \<bar>q\<bar>;
                    ycMin = min yN yC
                in (sp, (if y1 < ycMin then UP_CRITICAL else flowClass), yC, yN, fasnh))
             else (sp, flowClass, yC, yN, fasnh))
          else
            (if z2 > 0 then
               (let yN = link_getYnorm hp j \<bar>q\<bar>;
                    yC = link_getYcrit hp j \<bar>q\<bar>;
                    ycMin = min yN yC;
                    ycMax = max yN yC
                in if y2 < ycMin then (sp, DN_CRITICAL, yC, yN, fasnh)
                   else if y2 < ycMax then
                     (if ycMax - ycMin < FUDGE c then (sp, flowClass, yC, yN, 0)
                      else (sp, flowClass, yC, yN, (ycMax - y2) / (ycMax - ycMin)))
                   else (sp, flowClass, yC, yN, fasnh))
             else (sp, flowClass, yC, yN, fasnh)))
       else if y1 \<le> FUDGE c \<and> y2 \<le> FUDGE c then (sp, DRY, yC, yN, fasnh)
       else if y2 > FUDGE c then
         (if h2 < invertElev (Node sp n1) + offset1 (Link sp j)
          then (sp, UP_DRY, yC, yN, fasnh)
          else if z1 > 0
          then (sp, UP_CRITICAL, link_getYcrit hp j \<bar>q\<bar>, link_getYnorm hp j \<bar>q\<bar>, fasnh)
          else (sp, flowClass, yC, yN, fasnh))
       else
         (if h1 < invertElev (Node sp n2) + offset2 (Link sp j)
          then (sp, DN_DRY, yC, yN, fasnh)
          else if z2 > 0
          then (sp, DN_CRITICAL, link_getYcrit hp j \<bar>q\<bar>, link_getYnorm hp j \<bar>q\<bar>, fasnh)
          else (sp, flowClass, yC, yN, fasnh)))"

subsection \<open>Surface area of a conduit at its end nodes\<close>

text \<open>
  \<open>findSurfArea\<close> writes the link's flow class and surface areas and updates the
  heads and depths behind its four pointers; the model returns the project and the four
  values. The switch has no case for \<open>SUPCRITICAL\<close>: both areas keep their initial 0.
\<close>

definition findSurfArea ::
  "THeaders \<Rightarrow> THelpers \<Rightarrow> SWMM_Project \<Rightarrow> nat \<Rightarrow> real \<Rightarrow> real \<Rightarrow> real \<Rightarrow> real \<Rightarrow> real \<Rightarrow>
   real \<Rightarrow> SWMM_Project \<times> real \<times> real \<times> real \<times> real" where
  "findSurfArea c hp sp j q len h1 h2 y1 y2 =
    (let surfArea1 = 0;
         surfArea2 = 0;
         xs = xsect (Link sp j);
         n1 = node1 (Link sp j);
         n2 = node2 (Link sp j);
         flowDepth1 = y1;
         flowDepth2 = y2;
         normalDepth = (flowDepth1 + flowDepth2) / 2;
         criticalDepth = normalDepth
     in case getFlowClass c hp sp j q h1 h2 y1 y2 criticalDepth normalDepth of
       (sp, fc, criticalDepth, normalDepth, fasnh) \<Rightarrow>
       (let sp = upd_Link sp j (\<lambda>l. l\<lparr>flowClass := fc\<rparr>)
        in case
          (case flowClass (Link sp j) of
             SUBCRITICAL \<Rightarrow>
               (let flowDepthMid = 0.5 * (flowDepth1 + flowDepth2);
                    flowDepthMid = (if flowDepthMid < FUDGE c then FUDGE c else flowDepthMid);
                    width1 = getWidth hp xs flowDepth1;
                    width2 = getWidth hp xs flowDepth2;
                    widthMid = getWidth hp xs flowDepthMid;
                    surfArea1 = (width1 + widthMid) * len / 4;
                    surfArea2 = (widthMid + width2) * len / 4 * fasnh
                in (surfArea1, surfArea2, h1, h2, flowDepth1, flowDepth2))
           | UP_CRITICAL \<Rightarrow>
               (let flowDepth1 = criticalDepth;
                    flowDepth1 = (if normalDepth < criticalDepth then normalDepth else flowDepth1);
                    flowDepth1 = max flowDepth1 (FUDGE c);
                    h1 = invertElev (Node sp n1) + offset1 (Link sp j) + flowDepth1;
                    flowDepthMid = 0.5 * (flowDepth1 + flowDepth2);
                    flowDepthMid = (if flowDepthMid < FUDGE c then FUDGE c else flowDepthMid);
                    width2 = getWidth hp xs flowDepth2;
                    widthMid = getWidth hp xs flowDepthMid;
                    surfArea2 = (widthMid + width2) * len * 0.5
                in (surfArea1, surfArea2, h1, h2, flowDepth1, flowDepth2))
           | DN_CRITICAL \<Rightarrow>
               (let flowDepth2 = criticalDepth;
                    flowDepth2 = (if normalDepth < criticalDepth then normalDepth else flowDepth2);
                    flowDepth2 = max flowDepth2 (FUDGE c);
                    h2 = invertElev (Node sp n2) + offset2 (Link sp j) + flowDepth2;
                    width1 = getWidth hp xs flowDepth1;
                    flowDepthMid = 0.5 * (flowDepth1 + flowDepth2);
                    flowDepthMid = (if flowDepthMid < FUDGE c then FUDGE c else flowDepthMid);
                    widthMid = getWidth hp xs flowDepthMid;
                    surfArea1 = (width1 + widthMid) * len * 0.5
                in (surfArea1, surfArea2, h1, h2, flowDepth1, flowDepth2))
           | UP_DRY \<Rightarrow>
               (let flowDepth1 = FUDGE c;
                    flowDepthMid = 0.5 * (flowDepth1 + flowDepth2);
                    flowDepthMid = (if flowDepthMid < FUDGE c then FUDGE c else flowDepthMid);
                    width1 = getWidth hp xs flowDepth1;
                    width2 = getWidth hp xs flowDepth2;
                    widthMid = getWidth hp xs flowDepthMid;
                    surfArea2 = (widthMid + width2) * len / 4;
                    surfArea1 = (if offset1 (Link sp j) \<le> 0
                                 then (width1 + widthMid) * len / 4 else surfArea1)
                in (surfArea1, surfArea2, h1, h2, flowDepth1, flowDepth2))
           | DN_DRY \<Rightarrow>
               (let flowDepth2 = FUDGE c;
                    flowDepthMid = 0.5 * (flowDepth1 + flowDepth2);
                    flowDepthMid = (if flowDepthMid < FUDGE c then FUDGE c else flowDepthMid);
                    width1 = getWidth hp xs flowDepth1;
                    width2 = getWidth hp xs flowDepth2;
                    widthMid = getWidth hp xs flowDepthMid;
                    surfArea1 = (widthMid + width1) * len / 4;
                    surfArea2 = (if offset2 (Link sp j) \<le> 0
                                 then (width2 + widthMid) * len / 4 else surfArea2)
                in (surfArea1, surfArea2, h1, h2, flowDepth1, flowDepth2))
           | DRY \<Rightarrow>
               (let surfArea1 = FUDGE c * len / 2;
                    surfArea2 = surfArea1
                in (surfArea1, surfArea2, h1, h2, flowDepth1, flowDepth2))
           | SUPCRITICAL \<Rightarrow> (surfArea1, surfArea2, h1, h2, flowDepth1, flowDepth2))
        of (surfArea1, surfArea2, h1, h2, flowDepth1, flowDepth2) \<Rightarrow>
          (let sp = upd_Link sp j (\<lambda>l. l\<lparr>surfArea1 := surfArea1\<rparr>);
               sp = upd_Link sp j (\<lambda>l. l\<lparr>surfArea2 := surfArea2\<rparr>)
           in (sp, h1, h2, flowDepth1, flowDepth2))))"

subsection \<open>Momentum equation terms and flow limits\<close>

text \<open>
  Parameters and local variables named \<open>a1\<close>, \<open>a2\<close>, \<open>barrels\<close> and
  \<open>length\<close> in the source are written \<open>a_1\<close>, \<open>a_2\<close>, \<open>nbarrels\<close> and
  \<open>len\<close>: the first three are also fields of the conduit, the last is the length of
  a list.
\<close>

definition findLocalLosses ::
  "THeaders \<Rightarrow> SWMM_Project \<Rightarrow> nat \<Rightarrow> real \<Rightarrow> real \<Rightarrow> real \<Rightarrow> real \<Rightarrow> real" where
  "findLocalLosses c sp j a_1 a_2 aMid q =
    (let losses = 0;
         q = \<bar>q\<bar>;
         losses = (if a_1 > FUDGE c then losses + cLossInlet (Link sp j) * (q / a_1) else losses);
         losses = (if a_2 > FUDGE c then losses + cLossOutlet (Link sp j) * (q / a_2) else losses);
         losses = (if aMid > FUDGE c then losses + cLossAvg (Link sp j) * (q / aMid) else losses)
     in losses)"

text \<open>
  \<open>checkNormalFlow\<close> returns the flow and, as it may set the link's \<open>normalFlow\<close>
  flag, the project.
\<close>

definition checkNormalFlow ::
  "THeaders \<Rightarrow> THelpers \<Rightarrow> SWMM_Project \<Rightarrow> nat \<Rightarrow> real \<Rightarrow> real \<Rightarrow> real \<Rightarrow> real \<Rightarrow> real \<Rightarrow>
   real \<times> SWMM_Project" where
  "checkNormalFlow c hp sp j q y1 y2 a_1 r1 =
    (let check = False;
         k = subIndex (Link sp j);
         n1 = node1 (Link sp j);
         n2 = node2 (Link sp j);
         hasOutfall = (type_node (Node sp n1) = OUTFALL \<or> type_node (Node sp n2) = OUTFALL);
         check = (if NormalFlowLtd sp = SLOPE \<or> NormalFlowLtd sp = BOTH \<or> hasOutfall
                  then (if y1 < y2 then True else check) else check);
         check = (if \<not> check \<and> (NormalFlowLtd sp = FROUDE \<or> NormalFlowLtd sp = BOTH) \<and>
                     \<not> hasOutfall
                  then (if y1 > FUDGE c \<and> y2 > FUDGE c
                        then (let f1 = link_getFroude hp j (q / a_1) y1
                              in if f1 \<ge> 1 then True else check)
                        else check)
                  else check)
     in if check
        then (let qNorm = beta (Conduit sp k) * a_1 * (r1 powr (2 / 3))
              in if qNorm < q
                 then (qNorm, upd_Link sp j (\<lambda>l. l\<lparr>normalFlow := True\<rparr>))
                 else (q, sp))
        else (q, sp))"

text \<open>
  The body of \<open>dwflow_findConduitFlow\<close> is long. Six of its blocks are given as
  separate definitions, in source order; the main function below calls them where the
  blocks stand.
\<close>

text \<open>
  Lines 190 to 220: the terms of the momentum equation and the flow they give. The
  block reads the cross section and loss coefficients of the link and the roughness of
  its conduit; it returns the new flow and the denominator, which the derivative
  \<open>dqdh\<close> needs.
\<close>

definition momentumFlow ::
  "THeaders \<Rightarrow> THelpers \<Rightarrow> SWMM_Project \<Rightarrow> nat \<Rightarrow> real \<Rightarrow> bool \<Rightarrow> real \<Rightarrow> real \<Rightarrow> real \<Rightarrow> real \<Rightarrow>
   real \<Rightarrow> real \<Rightarrow> real \<Rightarrow> real \<Rightarrow> real \<Rightarrow> real \<Rightarrow> real \<Rightarrow> real \<Rightarrow> real \<Rightarrow> real \<Rightarrow> real \<times> real" where
  "momentumFlow c hp sp j dt isFull qOld qLast v aOld a_1 a_2 aMid rMid aWtd rWtd h1 h2 sigma len =
    (let xs = xsect (Link sp j);
         k = subIndex (Link sp j);
         dq1 = (if type_xsect xs = FORCE_MAIN c \<and> isFull
                then dt * forcemain_getFricSlope hp j \<bar>v\<bar> rMid
                else dt * roughFactor (Conduit sp k) / (rWtd powr 1.33333) * \<bar>v\<bar>);
         dq2 = dt * GRAVITY c * aWtd * (h2 - h1) / len;
         dq3 = 0;
         dq4 = 0;
         dq3 = (if sigma > 0 then 2 * v * (aMid - aOld) * sigma else dq3);
         dq4 = (if sigma > 0 then dt * v * v * (a_2 - a_1) / len * sigma else dq4);
         dq5 = 0;
         dq5 = (if hasLosses (Conduit sp k)
                then findLocalLosses c sp j a_1 a_2 aMid qLast / 2 / len * dt
                else dq5);
         dq6 = link_getLossRate hp j qOld dt * 2.5 * dt * v / link_getLength hp j;
         denom = 1 + dq1 + dq5;
         q = (qOld - dq2 + dq3 + dq4 - dq6) / denom
     in (q, denom))"

text \<open>Lines 226 to 240: inlet control of a culvert and the normal flow limitation.\<close>

definition flowLimitation ::
  "THeaders \<Rightarrow> THelpers \<Rightarrow> SWMM_Project \<Rightarrow> nat \<Rightarrow> bool \<Rightarrow> real \<Rightarrow> real \<Rightarrow> real \<Rightarrow> real \<Rightarrow> real \<Rightarrow>
   real \<Rightarrow> real \<times> SWMM_Project" where
  "flowLimitation c hp sp j isFull q h1 y1 y2 a_1 r1 =
    (let sp = upd_Link sp j (\<lambda>l. l\<lparr>inletControl := False\<rparr>);
         sp = upd_Link sp j (\<lambda>l. l\<lparr>normalFlow := False\<rparr>)
     in if q > 0 then
          (if culvertCode (xsect (Link sp j)) > 0 \<and> \<not> isFull then
             (case culvert_getInflow hp j q h1 of
                (q, ic) \<Rightarrow> (q, upd_Link sp j (\<lambda>l. l\<lparr>inletControl := ic\<rparr>)))
           else if y1 < yFull (xsect (Link sp j)) \<and>
                   (flowClass (Link sp j) = SUBCRITICAL \<or> flowClass (Link sp j) = SUPCRITICAL)
           then checkNormalFlow c hp sp j q y1 y2 a_1 r1
           else (q, sp))
        else (q, sp))"

text \<open>
  Lines 244 to 248: under-relaxation between the new flow and the last iterate. The test
  \<open>q * qLast < 0.0\<close> of line 247 looks at the product of two doubles, which is rounded.
  In IEEE 754 double arithmetic (rounding to nearest, gradual underflow) the rounded
  product is below 0.0 exactly when the exact product is below minus one half of the
  least positive double \<open>DBL_TRUE_MIN\<close>: a negative product of that magnitude or less is
  rounded to -0.0, which is not below 0.0, and the flow is not snapped.
\<close>

definition DBL_TRUE_MIN :: real where
  "DBL_TRUE_MIN = 1 / 2 ^ 1074"

definition underRelaxation :: "int \<Rightarrow> real \<Rightarrow> real \<Rightarrow> real \<Rightarrow> real" where
  "underRelaxation steps omega qLast q =
    (if steps > 0 then
       (let q = (1 - omega) * qLast + omega * q
        in if q * qLast < - (DBL_TRUE_MIN / 2) then 0.001 * SGN q else q)
     else q)"

text \<open>Lines 251 to 254: the user-supplied flow limit.\<close>

definition userFlowLimit :: "SWMM_Project \<Rightarrow> nat \<Rightarrow> real \<Rightarrow> real" where
  "userFlowLimit sp j q =
    (if qLimit (Link sp j) > 0 then
       (if \<bar>q\<bar> > qLimit (Link sp j) then SGN q * qLimit (Link sp j) else q)
     else q)"

text \<open>Lines 261 and 262: no flow out of a dry node.\<close>

definition dryNodeLimit :: "THeaders \<Rightarrow> SWMM_Project \<Rightarrow> nat \<Rightarrow> nat \<Rightarrow> real \<Rightarrow> real" where
  "dryNodeLimit c sp n1 n2 q =
    (let q = (if q > FUDGE c \<and> newDepth_node (Node sp n1) \<le> FUDGE c then FUDGE c else q);
         q = (if q < - FUDGE c \<and> newDepth_node (Node sp n2) \<le> FUDGE c then - FUDGE c else q)
     in q)"

subsection \<open>The conduit flow update\<close>

text \<open>
  Lines 93 to 112: the heads at the two ends of the conduit, not below the conduit's
  invert there, and the flow depths, kept between FUDGE and the full depth.
\<close>

definition conduitHeads :: "THeaders \<Rightarrow> SWMM_Project \<Rightarrow> nat \<Rightarrow> real \<times> real \<times> real \<times> real" where
  "conduitHeads c sp j =
    (let xs = xsect (Link sp j);
         n1 = node1 (Link sp j);
         n2 = node2 (Link sp j);
         z1 = invertElev (Node sp n1) + offset1 (Link sp j);
         z2 = invertElev (Node sp n2) + offset2 (Link sp j);
         h1 = newDepth_node (Node sp n1) + invertElev (Node sp n1);
         h2 = newDepth_node (Node sp n2) + invertElev (Node sp n2);
         h1 = max h1 z1;
         h2 = max h2 z2;
         y1 = h1 - z1;
         y2 = h2 - z2;
         y1 = max y1 (FUDGE c);
         y2 = max y2 (FUDGE c);
         y1 = min y1 (yFull xs);
         y2 = min y2 (yFull xs)
     in (h1, h2, y1, y2))"

definition dwflow_findConduitFlow ::
  "THeaders \<Rightarrow> THelpers \<Rightarrow> SWMM_Project \<Rightarrow> nat \<Rightarrow> int \<Rightarrow> real \<Rightarrow> real \<Rightarrow> SWMM_Project" where
  "dwflow_findConduitFlow c hp sp j steps omega dt =
    (let xs = xsect (Link sp j);
         isFull = False;
         isClosed = False;
         isClosed = (if setting (Link sp j) = 0 then True else isClosed);
         k = subIndex (Link sp j);
         nbarrels = real (barrels (Conduit sp k));
         qOld = oldFlow (Link sp j) / nbarrels;
         qLast = q1 (Conduit sp k);
         n1 = node1 (Link sp j);
         n2 = node2 (Link sp j)
     in case conduitHeads c sp j of
       (h1, h2, y1, y2) \<Rightarrow>
    (let aOld = a2 (Conduit sp k);
         aOld = max aOld (FUDGE c);
         len = modLength (Conduit sp k)
     in case findSurfArea c hp sp j qLast len h1 h2 y1 y2 of
       (sp, h1, h2, y1, y2) \<Rightarrow>
       (let a_1 = getArea hp xs y1;
            a_2 = getArea hp xs y2;
            r1 = getHydRad hp xs y1;
            yMid = 0.5 * (y1 + y2);
            aMid = getArea hp xs yMid;
            rMid = getHydRad hp xs yMid;
            isFull = (if y1 \<ge> yFull xs \<and> y2 \<ge> yFull xs then True else isFull)
        in
          if flowClass (Link sp j) = DRY \<or>
             flowClass (Link sp j) = UP_DRY \<or>
             flowClass (Link sp j) = DN_DRY \<or>
             isClosed \<or>
             aMid \<le> FUDGE c
          then
            (let sp = upd_Conduit sp k (\<lambda>cd. cd\<lparr>a1 := 0.5 * (a_1 + a_2)\<rparr>);
                 sp = upd_Conduit sp k (\<lambda>cd. cd\<lparr>q1 := 0\<rparr>);
                 sp = upd_Conduit sp k (\<lambda>cd. cd\<lparr>q2 := 0\<rparr>);
                 sp = upd_Link sp j (\<lambda>l. l\<lparr>dqdh := GRAVITY c * dt * aMid / len * nbarrels\<rparr>);
                 sp = upd_Link sp j (\<lambda>l. l\<lparr>froude := 0\<rparr>);
                 sp = upd_Link sp j
                        (\<lambda>l. l\<lparr>newDepth_link := min yMid (yFull (xsect (Link sp j)))\<rparr>);
                 sp = upd_Link sp j
                        (\<lambda>l. l\<lparr>newVolume := a1 (Conduit sp k) * link_getLength hp j * nbarrels\<rparr>);
                 sp = upd_Link sp j (\<lambda>l. l\<lparr>newFlow := 0\<rparr>)
             in sp)
          else
            (let v = qLast / aMid;
                 v = (if \<bar>v\<bar> > MAXVELOCITY then MAXVELOCITY * SGN qLast else v);
                 sp = upd_Link sp j (\<lambda>l. l\<lparr>froude := link_getFroude hp j v yMid\<rparr>);
                 sp = (if flowClass (Link sp j) = SUBCRITICAL \<and> froude (Link sp j) > 1
                       then upd_Link sp j (\<lambda>l. l\<lparr>flowClass := SUPCRITICAL\<rparr>) else sp);
                 sigma = (if froude (Link sp j) \<le> 0.5 then 1
                          else if froude (Link sp j) \<ge> 1 then 0
                          else 2 * (1 - froude (Link sp j)));
                 rho = 1;
                 rho = (if \<not> isFull \<and> qLast > 0 \<and> h1 \<ge> h2 then sigma else rho);
                 aWtd = a_1 + (aMid - a_1) * rho;
                 rWtd = r1 + (rMid - r1) * rho;
                 sigma = (if InertDamping sp = NO_DAMPING then 1
                          else if InertDamping sp = FULL_DAMPING then 0
                          else sigma);
                 sigma = (if isFull \<and> \<not> xsect_isOpen hp (type_xsect xs) then 0 else sigma)
             in case momentumFlow c hp sp j dt isFull qOld qLast v aOld a_1 a_2 aMid rMid
                       aWtd rWtd h1 h2 sigma len of
               (q, denom) \<Rightarrow>
            (let sp = upd_Link sp j
                        (\<lambda>l. l\<lparr>dqdh := 1 / denom * GRAVITY c * dt * aWtd / len * nbarrels\<rparr>)
             in case flowLimitation c hp sp j isFull q h1 y1 y2 a_1 r1 of
               (q, sp) \<Rightarrow>
               (let q = underRelaxation steps omega qLast q;
                    q = userFlowLimit sp j q;
                    q = (if link_setFlapGate hp j n1 n2 q then 0 else q);
                    q = dryNodeLimit c sp n1 n2 q;
                    sp = upd_Conduit sp k (\<lambda>cd. cd\<lparr>a1 := aMid\<rparr>);
                    sp = upd_Conduit sp k (\<lambda>cd. cd\<lparr>q1 := q\<rparr>);
                    sp = upd_Conduit sp k (\<lambda>cd. cd\<lparr>q2 := q\<rparr>);
                    sp = upd_Link sp j (\<lambda>l. l\<lparr>newDepth_link := min yMid (yFull xs)\<rparr>);
                    aMid = (a_1 + a_2) / 2;
                    aMid = min aMid (aFull xs);
                    sp = upd_Conduit sp k
                           (\<lambda>cd. cd\<lparr>fullState := link_getFullState hp a_1 a_2 (aFull xs)\<rparr>);
                    sp = upd_Link sp j
                           (\<lambda>l. l\<lparr>newVolume := aMid * link_getLength hp j * nbarrels\<rparr>);
                    sp = upd_Link sp j (\<lambda>l. l\<lparr>newFlow := q * nbarrels\<rparr>)
                in sp))))))"

text \<open>
  The same function cut after line 223, where the flow limitation begins. The early
  return of line 159 is \<open>Inl\<close> with the project it leaves. Otherwise the result is
  \<open>Inr\<close> with the project as it is after line 223, the flow \<open>q\<close> that the momentum
  equation gives, the locals that the flow limitation reads (the upstream head and
  depth, the downstream depth, the upstream area and hydraulic radius, and \<open>isFull\<close>),
  and the weighted hydraulic radius \<open>rWtd\<close> that the friction term divides by. It
  serves to name these values in the statements about the flow limits.
\<close>

definition dwflow_momentum ::
  "THeaders \<Rightarrow> THelpers \<Rightarrow> SWMM_Project \<Rightarrow> nat \<Rightarrow> real \<Rightarrow>
   SWMM_Project + SWMM_Project \<times> real \<times> real \<times> real \<times> real \<times> real \<times> real \<times> bool \<times> real" where
  "dwflow_momentum c hp sp j dt =
    (let xs = xsect (Link sp j);
         isFull = False;
         isClosed = False;
         isClosed = (if setting (Link sp j) = 0 then True else isClosed);
         k = subIndex (Link sp j);
         nbarrels = real (barrels (Conduit sp k));
         qOld = oldFlow (Link sp j) / nbarrels;
         qLast = q1 (Conduit sp k);
         n1 = node1 (Link sp j);
         n2 = node2 (Link sp j)
     in case conduitHeads c sp j of
       (h1, h2, y1, y2) \<Rightarrow>
    (let aOld = a2 (Conduit sp k);
         aOld = max aOld (FUDGE c);
         len = modLength (Conduit sp k)
     in case findSurfArea c hp sp j qLast len h1 h2 y1 y2 of
       (sp, h1, h2, y1, y2) \<Rightarrow>
       (let a_1 = getArea hp xs y1;
            a_2 = getArea hp xs y2;
            r1 = getHydRad hp xs y1;
            yMid = 0.5 * (y1 + y2);
            aMid = getArea hp xs yMid;
            rMid = getHydRad hp xs yMid;
            isFull = (if y1 \<ge> yFull xs \<and> y2 \<ge> yFull xs then True else isFull)
        in
          if flowClass (Link sp j) = DRY \<or>
             flowClass (Link sp j) = UP_DRY \<or>
             flowClass (Link sp j) = DN_DRY \<or>
             isClosed \<or>
             aMid \<le> FUDGE c
          then Inl
            (let sp = upd_Conduit sp k (\<lambda>cd. cd\<lparr>a1 := 0.5 * (a_1 + a_2)\<rparr>);
                 sp = upd_Conduit sp k (\<lambda>cd. cd\<lparr>q1 := 0\<rparr>);
                 sp = upd_Conduit sp k (\<lambda>cd. cd\<lparr>q2 := 0\<rparr>);
                 sp = upd_Link sp j (\<lambda>l. l\<lparr>dqdh := GRAVITY c * dt * aMid / len * nbarrels\<rparr>);
                 sp = upd_Link sp j (\<lambda>l. l\<lparr>froude := 0\<rparr>);
                 sp = upd_Link sp j
                        (\<lambda>l. l\<lparr>newDepth_link := min yMid (yFull (xsect (Link sp j)))\<rparr>);
                 sp = upd_Link sp j
                        (\<lambda>l. l\<lparr>newVolume := a1 (Conduit sp k) * link_getLength hp j * nbarrels\<rparr>);
                 sp = upd_Link sp j (\<lambda>l. l\<lparr>newFlow := 0\<rparr>)
             in sp)
          else
            (let v = qLast / aMid;
                 v = (if \<bar>v\<bar> > MAXVELOCITY then MAXVELOCITY * SGN qLast else v);
                 sp = upd_Link sp j (\<lambda>l. l\<lparr>froude := link_getFroude hp j v yMid\<rparr>);
                 sp = (if flowClass (Link sp j) = SUBCRITICAL \<and> froude (Link sp j) > 1
                       then upd_Link sp j (\<lambda>l. l\<lparr>flowClass := SUPCRITICAL\<rparr>) else sp);
                 sigma = (if froude (Link sp j) \<le> 0.5 then 1
                          else if froude (Link sp j) \<ge> 1 then 0
                          else 2 * (1 - froude (Link sp j)));
                 rho = 1;
                 rho = (if \<not> isFull \<and> qLast > 0 \<and> h1 \<ge> h2 then sigma else rho);
                 aWtd = a_1 + (aMid - a_1) * rho;
                 rWtd = r1 + (rMid - r1) * rho;
                 sigma = (if InertDamping sp = NO_DAMPING then 1
                          else if InertDamping sp = FULL_DAMPING then 0
                          else sigma);
                 sigma = (if isFull \<and> \<not> xsect_isOpen hp (type_xsect xs) then 0 else sigma)
             in case momentumFlow c hp sp j dt isFull qOld qLast v aOld a_1 a_2 aMid rMid
                       aWtd rWtd h1 h2 sigma len of
               (q, denom) \<Rightarrow>
            (let sp = upd_Link sp j
                        (\<lambda>l. l\<lparr>dqdh := 1 / denom * GRAVITY c * dt * aWtd / len * nbarrels\<rparr>)
             in Inr (sp, q, h1, y1, y2, a_1, r1, isFull, rWtd))))))"

section \<open>Symbolic expressions (mathexpr.c)\<close>

subsection \<open>Doubles with infinities and NaN\<close>

text \<open>
  The evaluator tests its operands before it calls the math library and tests its result
  for NaN, so here a double is a real number, an infinity or NaN. Finite arithmetic is
  exact: rounding, overflow and the sign of zero are not represented. The operations
  follow IEEE 754 and Annex F of the C standard.
\<close>

datatype double = Fin real | PInf | MInf | NaN

fun d_neg :: "double \<Rightarrow> double" where
  "d_neg (Fin x) = Fin (- x)"
| "d_neg PInf = MInf"
| "d_neg MInf = PInf"
| "d_neg NaN = NaN"

fun d_add :: "double \<Rightarrow> double \<Rightarrow> double" where
  "d_add NaN y = NaN"
| "d_add x NaN = NaN"
| "d_add (Fin x) (Fin y) = Fin (x + y)"
| "d_add PInf MInf = NaN"
| "d_add MInf PInf = NaN"
| "d_add PInf y = PInf"
| "d_add MInf y = MInf"
| "d_add x PInf = PInf"
| "d_add x MInf = MInf"

definition d_sub :: "double \<Rightarrow> double \<Rightarrow> double" where
  "d_sub x y = d_add x (d_neg y)"

fun d_mul :: "double \<Rightarrow> double \<Rightarrow> double" where
  "d_mul NaN y = NaN"
| "d_mul x NaN = NaN"
| "d_mul (Fin x) (Fin y) = Fin (x * y)"
| "d_mul (Fin x) y = (if x = 0 then NaN else if 0 < x then y else d_neg y)"
| "d_mul x (Fin y) = (if y = 0 then NaN else if 0 < y then x else d_neg x)"
| "d_mul PInf y = y"
| "d_mul MInf y = d_neg y"

fun d_div :: "double \<Rightarrow> double \<Rightarrow> double" where
  "d_div NaN y = NaN"
| "d_div x NaN = NaN"
| "d_div (Fin x) (Fin y) =
     (if y \<noteq> 0 then Fin (x / y) else if x = 0 then NaN else if 0 < x then PInf else MInf)"
| "d_div (Fin x) y = Fin 0"
| "d_div x (Fin y) = (if 0 \<le> y then x else d_neg x)"
| "d_div x y = NaN"

fun d_less :: "double \<Rightarrow> double \<Rightarrow> bool" where
  "d_less NaN y = False"
| "d_less x NaN = False"
| "d_less (Fin x) (Fin y) = (x < y)"
| "d_less x MInf = False"
| "d_less PInf y = False"
| "d_less x y = True"

fun d_eq :: "double \<Rightarrow> double \<Rightarrow> bool" where
  "d_eq NaN y = False"
| "d_eq x NaN = False"
| "d_eq x y = (x = y)"

definition d_le :: "double \<Rightarrow> double \<Rightarrow> bool" where
  "d_le x y = (d_less x y \<or> d_eq x y)"

fun d_fabs :: "double \<Rightarrow> double" where
  "d_fabs (Fin x) = Fin \<bar>x\<bar>"
| "d_fabs NaN = NaN"
| "d_fabs x = PInf"

fun d_cos :: "double \<Rightarrow> double" where
  "d_cos (Fin x) = Fin (cos x)"
| "d_cos x = NaN"

fun d_sin :: "double \<Rightarrow> double" where
  "d_sin (Fin x) = Fin (sin x)"
| "d_sin x = NaN"

fun d_tan :: "double \<Rightarrow> double" where
  "d_tan (Fin x) = Fin (tan x)"
| "d_tan x = NaN"

fun d_sqrt :: "double \<Rightarrow> double" where
  "d_sqrt (Fin x) = (if 0 \<le> x then Fin (sqrt x) else NaN)"
| "d_sqrt PInf = PInf"
| "d_sqrt x = NaN"

fun d_log :: "double \<Rightarrow> double" where
  "d_log (Fin x) = (if 0 < x then Fin (ln x) else if x = 0 then MInf else NaN)"
| "d_log PInf = PInf"
| "d_log x = NaN"

fun d_log10 :: "double \<Rightarrow> double" where
  "d_log10 (Fin x) = (if 0 < x then Fin (log 10 x) else if x = 0 then MInf else NaN)"
| "d_log10 PInf = PInf"
| "d_log10 x = NaN"

fun d_exp :: "double \<Rightarrow> double" where
  "d_exp (Fin x) = Fin (exp x)"
| "d_exp PInf = PInf"
| "d_exp MInf = Fin 0"
| "d_exp NaN = NaN"

fun d_asin :: "double \<Rightarrow> double" where
  "d_asin (Fin x) = (if \<bar>x\<bar> \<le> 1 then Fin (arcsin x) else NaN)"
| "d_asin x = NaN"

fun d_acos :: "double \<Rightarrow> double" where
  "d_acos (Fin x) = (if \<bar>x\<bar> \<le> 1 then Fin (arccos x) else NaN)"
| "d_acos x = NaN"

fun d_atan :: "double \<Rightarrow> double" where
  "d_atan (Fin x) = Fin (arctan x)"
| "d_atan PInf = Fin (pi / 2)"
| "d_atan MInf = Fin (- (pi / 2))"
| "d_atan NaN = NaN"

subsection \<open>Evaluation of a postfix program\<close>

text \<open>
  A program is the list of the nodes of the C linked list, in order; the null pointer
  is the empty list. The callback for the value of a variable may be null.
\<close>

record MathExpr =
  opcode :: int
  ivar :: int
  fvalue :: double

definition MAX_STACK_SIZE :: nat where
  "MAX_STACK_SIZE = 1024"

text \<open>
  The C stack is an array with an index. Cells above the index are never read before
  they are written, so the model keeps the cells from the index down to 0 as a list,
  top first. An access below cell 0 or above the last cell is undefined behaviour in
  C and a fault here.
\<close>

datatype eval_fault = StackOutOfBounds

definition eval_unary :: "(double \<Rightarrow> double) \<Rightarrow> double list \<Rightarrow> eval_fault + double list" where
  "eval_unary f st = (case st of [] \<Rightarrow> Inl StackOutOfBounds | r1 # rest \<Rightarrow> Inr (f r1 # rest))"

definition eval_binary ::
  "(double \<Rightarrow> double \<Rightarrow> double) \<Rightarrow> double list \<Rightarrow> eval_fault + double list" where
  "eval_binary f st =
    (case st of
       r1 # r2 # rest \<Rightarrow> Inr (f r2 r1 # rest)
     | _ \<Rightarrow> Inl StackOutOfBounds)"

definition eval_push :: "double \<Rightarrow> double list \<Rightarrow> eval_fault + double list" where
  "eval_push v st = (if length st < MAX_STACK_SIZE then Inr (v # st) else Inl StackOutOfBounds)"

text \<open>One pass through the switch of \<open>mathexpr_eval\<close>, for the node at hand.\<close>

definition eval_node ::
  "(int \<Rightarrow> double) option \<Rightarrow> MathExpr \<Rightarrow> double list \<Rightarrow> eval_fault + double list" where
  "eval_node getVariableValue node st =
    (let oc = opcode node in
     if oc = 3 then eval_binary (\<lambda>r2 r1. d_add r2 r1) st
     else if oc = 4 then eval_binary (\<lambda>r2 r1. d_sub r2 r1) st
     else if oc = 5 then eval_binary (\<lambda>r2 r1. d_mul r2 r1) st
     else if oc = 6 then eval_binary (\<lambda>r2 r1. d_div r2 r1) st
     else if oc = 7 then eval_push (fvalue node) st
     else if oc = 8 then
       eval_push (case getVariableValue of Some f \<Rightarrow> f (ivar node) | None \<Rightarrow> Fin 0) st
     else if oc = 9 then eval_unary d_neg st
     else if oc = 10 then eval_unary d_cos st
     else if oc = 11 then eval_unary d_sin st
     else if oc = 12 then eval_unary d_tan st
     else if oc = 13 then
       eval_unary (\<lambda>r1. if d_eq r1 (Fin 0) then Fin 0 else d_div (Fin 1) (d_tan r1)) st
     else if oc = 14 then eval_unary d_fabs st
     else if oc = 15 then
       eval_unary (\<lambda>r1. if d_less r1 (Fin 0) then Fin (- 1)
                        else if d_less (Fin 0) r1 then Fin 1 else Fin 0) st
     else if oc = 16 then eval_unary (\<lambda>r1. if d_less r1 (Fin 0) then Fin 0 else d_sqrt r1) st
     else if oc = 17 then eval_unary (\<lambda>r1. if d_le r1 (Fin 0) then Fin 0 else d_log r1) st
     else if oc = 18 then eval_unary d_exp st
     else if oc = 19 then eval_unary d_asin st
     else if oc = 20 then eval_unary d_acos st
     else if oc = 21 then eval_unary d_atan st
     else if oc = 22 then
       eval_unary (\<lambda>r1. d_sub (Fin 1.57079632679489661923) (d_atan r1)) st
     else if oc = 23 then
       eval_unary (\<lambda>r1. d_div (d_sub (d_exp r1) (d_exp (d_neg r1))) (Fin 2)) st
     else if oc = 24 then
       eval_unary (\<lambda>r1. d_div (d_add (d_exp r1) (d_exp (d_neg r1))) (Fin 2)) st
     else if oc = 25 then
       eval_unary (\<lambda>r1. d_div (d_sub (d_exp r1) (d_exp (d_neg r1)))
                              (d_add (d_exp r1) (d_exp (d_neg r1)))) st
     else if oc = 26 then
       eval_unary (\<lambda>r1. d_div (d_add (d_exp r1) (d_exp (d_neg r1)))
                              (d_sub (d_exp r1) (d_exp (d_neg r1)))) st
     else if oc = 27 then eval_unary (\<lambda>r1. if d_eq r1 (Fin 0) then Fin 0 else d_log10 r1) st
     else if oc = 28 then eval_unary (\<lambda>r1. if d_le r1 (Fin 0) then Fin 0 else Fin 1) st
     else if oc = 31 then
       eval_binary (\<lambda>r2 r1. if d_le r2 (Fin 0) then Fin 0 else d_exp (d_mul r1 (d_log r2))) st
     else Inr st)"

fun eval_loop ::
  "(int \<Rightarrow> double) option \<Rightarrow> MathExpr list \<Rightarrow> double list \<Rightarrow> eval_fault + double list" where
  "eval_loop getVariableValue [] st = Inr st"
| "eval_loop getVariableValue (node # expr) st =
     (case eval_node getVariableValue node st of
        Inl e \<Rightarrow> Inl e
      | Inr st \<Rightarrow> eval_loop getVariableValue expr st)"

definition mathexpr_eval :: "MathExpr list \<Rightarrow> (int \<Rightarrow> double) option \<Rightarrow> eval_fault + double" where
  "mathexpr_eval expr getVariableValue =
    (case eval_loop getVariableValue expr [Fin 0] of
       Inl e \<Rightarrow> Inl e
     | Inr st \<Rightarrow>
         (case st of
            [] \<Rightarrow> Inl StackOutOfBounds
          | r1 # rest \<Rightarrow> Inr (if \<not> d_eq r1 r1 then Fin 0 else r1)))"

subsection \<open>Building a program from a formula\<close>

text \<open>
  The tree of a formula. A null pointer is \<open>NullTree\<close>; a node carries its operator
  code, variable index, numerical value and two subtrees.
\<close>

datatype ExprTree = NullTree | TreeNode int int double ExprTree ExprTree

text \<open>
  The parser keeps its state in the project: the formula \<open>S\<close> of length \<open>Len\<close>, the
  position \<open>Pos\<close>, the current and previous lexemes, the count \<open>Bc\<close> of open
  parentheses, the error flag, and the token, variable index and value last read.
\<close>

record TMathexprShared =
  Err :: int
  Bc :: int
  PrevLex :: int
  CurLex :: int
  Len :: int
  Pos :: int
  S :: string
  Token :: string
  Ivar :: int
  Fvalue :: double

text \<open>
  A character of a C string: position \<open>Len\<close> holds the terminating zero. The code
  never reads beyond it.
\<close>

definition charAt :: "string \<Rightarrow> int \<Rightarrow> char" where
  "charAt s i = (if 0 \<le> i \<and> nat i < length s then s ! nat i else CHR 0x00)"

definition isDigit :: "char \<Rightarrow> bool" where
  "isDigit c =
    (if (of_char (CHR ''1'') :: nat) \<le> of_char c \<and> (of_char c :: nat) \<le> of_char (CHR ''9'')
     then True
     else if c = CHR ''0'' then True
     else False)"

definition isLetter :: "char \<Rightarrow> bool" where
  "isLetter c =
    (if (of_char (CHR ''a'') :: nat) \<le> of_char c \<and> (of_char c :: nat) \<le> of_char (CHR ''z'')
     then True
     else if (of_char (CHR ''A'') :: nat) \<le> of_char c \<and> (of_char c :: nat) \<le> of_char (CHR ''Z'')
     then True
     else if c = CHR ''_'' then True
     else False)"

definition toupper :: "char \<Rightarrow> char" where
  \<comment> \<open>The C library function, on ASCII.\<close>
  "toupper c =
    (if (of_char (CHR ''a'') :: nat) \<le> of_char c \<and> (of_char c :: nat) \<le> of_char (CHR ''z'')
     then char_of ((of_char c :: nat) - 32) else c)"

text \<open>
  \<open>sametext\<close> compares two non-empty strings without regard to case. On two empty
  strings the C loop reads past the terminating zeros; the callers never pass an empty
  token.
\<close>

fun sametext :: "string \<Rightarrow> string \<Rightarrow> bool" where
  "sametext (a # s1) (b # s2) =
     (if toupper a = toupper b
      then (if s1 = [] \<and> s2 = [] then True else sametext s1 s2)
      else False)"
| "sametext [] [] = True"
| "sametext s1 s2 = False"

definition MathFunc :: "string list" where
  "MathFunc = [''COS'', ''SIN'', ''TAN'', ''COT'', ''ABS'', ''SGN'', ''SQRT'', ''LOG'', ''EXP'',
               ''ASIN'', ''ACOS'', ''ATAN'', ''ACOT'', ''SINH'', ''COSH'', ''TANH'', ''COTH'',
               ''LOG10'', ''STEP'']"

text \<open>The loop of \<open>getToken\<close>: letters and digits are appended to the token.\<close>

function getToken_loop :: "TMathexprShared \<Rightarrow> TMathexprShared" where
  "getToken_loop m =
    (if Pos m \<le> Len m \<and> (isLetter (charAt (S m) (Pos m)) \<or> isDigit (charAt (S m) (Pos m)))
     then getToken_loop (m\<lparr>Token := Token m @ [charAt (S m) (Pos m)], Pos := Pos m + 1\<rparr>)
     else m)"
  by pat_completeness auto
termination
  by (relation "measure (\<lambda>m. nat (Len m + 1 - Pos m))") auto

declare getToken_loop.simps [simp del]

definition getToken :: "TMathexprShared \<Rightarrow> TMathexprShared" where
  "getToken m =
    (let m = m\<lparr>Token := ''''\<rparr>;
         m = getToken_loop m
     in m\<lparr>Pos := Pos m - 1\<rparr>)"

fun getMathFunc_loop :: "string list \<Rightarrow> int \<Rightarrow> string \<Rightarrow> int" where
  "getMathFunc_loop [] i tok = 0"
| "getMathFunc_loop (name # names) i tok =
     (if sametext name tok then i + 10 else getMathFunc_loop names (i + 1) tok)"

definition getMathFunc :: "TMathexprShared \<Rightarrow> int" where
  "getMathFunc m = getMathFunc_loop MathFunc 0 (Token m)"

definition getVariable :: "(string \<Rightarrow> int) option \<Rightarrow> TMathexprShared \<Rightarrow> int \<times> TMathexprShared" where
  "getVariable getVariableIndex m =
    (case getVariableIndex of
       None \<Rightarrow> (0, m)
     | Some f \<Rightarrow>
         (let m = m\<lparr>Ivar := f (Token m)\<rparr>
          in if Ivar m \<ge> 0 then (8, m) else (0, m)))"

text \<open>
  The C library function \<open>atof\<close> on the strings that \<open>getNumber\<close> builds: digits, an
  optional point with digits, an optional \<open>E\<close> with an optional sign and digits. The
  value is exact.
\<close>

definition digitsValue :: "string \<Rightarrow> nat" where
  "digitsValue s = foldl (\<lambda>n c. 10 * n + ((of_char c :: nat) - 48)) 0 s"

definition atof :: "string \<Rightarrow> real" where
  "atof s =
    (let whole = takeWhile isDigit s;
         r = dropWhile isDigit s;
         frac = (if r \<noteq> [] \<and> hd r = CHR ''.'' then takeWhile isDigit (tl r) else []);
         r = (if r \<noteq> [] \<and> hd r = CHR ''.'' then dropWhile isDigit (tl r) else r);
         mant = real (digitsValue whole) + real (digitsValue frac) / 10 ^ length frac
     in if r \<noteq> [] \<and> hd r = CHR ''E''
        then (if tl r \<noteq> [] \<and> hd (tl r) = CHR ''-''
              then mant / 10 ^ digitsValue (tl (tl r))
              else if tl r \<noteq> [] \<and> hd (tl r) = CHR ''+''
              then mant * 10 ^ digitsValue (tl (tl r))
              else mant * 10 ^ digitsValue (tl r))
        else mant)"

text \<open>
  The loop that \<open>getNumber\<close> runs three times: digits are appended to the number's
  text.
\<close>

function getNumber_digits :: "TMathexprShared \<Rightarrow> string \<Rightarrow> TMathexprShared \<times> string" where
  "getNumber_digits m sNumber =
    (if Pos m < Len m \<and> isDigit (charAt (S m) (Pos m))
     then getNumber_digits (m\<lparr>Pos := Pos m + 1\<rparr>) (sNumber @ [charAt (S m) (Pos m)])
     else (m, sNumber))"
  by pat_completeness auto
termination
  by (relation "measure (\<lambda>(m, s). nat (Len m - Pos m))") auto

declare getNumber_digits.simps [simp del]

definition getNumber :: "TMathexprShared \<Rightarrow> double \<times> TMathexprShared" where
  "getNumber m =
    (let errflag = (0::int);
         sNumber = ''''
     in case getNumber_digits m sNumber of
       (m, sNumber) \<Rightarrow>
       (case
          (if Pos m < Len m then
             (case
                (if charAt (S m) (Pos m) = CHR ''.''
                 then getNumber_digits (m\<lparr>Pos := Pos m + 1\<rparr>) (sNumber @ ''.'')
                 else (m, sNumber))
              of (m, sNumber) \<Rightarrow>
                if Pos m < Len m \<and>
                   (charAt (S m) (Pos m) = CHR ''e'' \<or> charAt (S m) (Pos m) = CHR ''E'')
                then
                  (let sNumber = sNumber @ ''E'';
                       m = m\<lparr>Pos := Pos m + 1\<rparr>
                   in if Pos m \<ge> Len m then (m, sNumber, 1)
                      else
                        (case
                           (if charAt (S m) (Pos m) = CHR ''-'' \<or> charAt (S m) (Pos m) = CHR ''+''
                            then (m\<lparr>Pos := Pos m + 1\<rparr>, sNumber @ [charAt (S m) (Pos m)])
                            else (m, sNumber))
                         of (m, sNumber) \<Rightarrow>
                           if Pos m \<ge> Len m \<or> \<not> isDigit (charAt (S m) (Pos m))
                           then (m, sNumber, 1)
                           else (case getNumber_digits m sNumber of
                                   (m, sNumber) \<Rightarrow> (m, sNumber, errflag))))
                else (m, sNumber, errflag))
           else (m, sNumber, errflag))
        of (m, sNumber, errflag) \<Rightarrow>
          (let m = m\<lparr>Pos := Pos m - 1\<rparr>
           in if errflag \<noteq> 0 then (Fin 0, m) else (Fin (atof sNumber), m))))"

definition getOperand :: "TMathexprShared \<Rightarrow> int \<times> TMathexprShared" where
  "getOperand m =
    (let ch = charAt (S m) (Pos m) in
     if ch = CHR ''('' then (1, m)
     else if ch = CHR '')'' then (2, m)
     else if ch = CHR ''+'' then (3, m)
     else if ch = CHR ''-'' then
       (if Pos m < Len m - 1 \<and> isDigit (charAt (S m) (Pos m + 1)) \<and>
           (CurLex m = 0 \<or> CurLex m = 1)
        then (let m = m\<lparr>Pos := Pos m + 1\<rparr>
              in case getNumber m of (v, m) \<Rightarrow> (7, m\<lparr>Fvalue := d_neg v\<rparr>))
        else (4, m))
     else if ch = CHR ''*'' then (5, m)
     else if ch = CHR ''/'' then (6, m)
     else if ch = CHR ''^'' then (31, m)
     else (0, m))"

function getLex_spaces :: "TMathexprShared \<Rightarrow> TMathexprShared" where
  "getLex_spaces m =
    (if Pos m < Len m \<and> charAt (S m) (Pos m) = CHR '' ''
     then getLex_spaces (m\<lparr>Pos := Pos m + 1\<rparr>) else m)"
  by pat_completeness auto
termination
  by (relation "measure (\<lambda>m. nat (Len m - Pos m))") auto

declare getLex_spaces.simps [simp del]

definition getLex :: "(string \<Rightarrow> int) option \<Rightarrow> TMathexprShared \<Rightarrow> int \<times> TMathexprShared" where
  "getLex getVariableIndex m =
    (let m = getLex_spaces m in
     if Pos m \<ge> Len m then (0, m)
     else
       (case getOperand m of
          (n, m) \<Rightarrow>
          (case
             (if n = 0 then
                (if isLetter (charAt (S m) (Pos m)) then
                   (let m = getToken m;
                        n = getMathFunc m
                    in if n = 0 then getVariable getVariableIndex m else (n, m))
                 else if isDigit (charAt (S m) (Pos m)) then
                   (case getNumber m of (v, m) \<Rightarrow> (7, m\<lparr>Fvalue := v\<rparr>))
                 else (n, m))
              else (n, m))
           of (n, m) \<Rightarrow>
             (let m = m\<lparr>Pos := Pos m + 1\<rparr>;
                  m = m\<lparr>PrevLex := CurLex m\<rparr>;
                  m = m\<lparr>CurLex := n\<rparr>
              in (n, m)))))"

text \<open>
  \<open>newNode\<close> allocates a node with operator code 0, variable index -1, value 0 and no
  subtrees; allocation is taken to succeed. A function that returns the null pointer
  after setting the error flag returns \<open>NullTree\<close> here. Each function returns the
  lexeme it leaves in \<open>*lex\<close> (written \<open>lx\<close>, since \<open>lex\<close> is an order on lists) and
  the parser state.

  \<open>getSingleOp\<close>, \<open>getOp\<close> and \<open>getTree\<close> call each other, and each has a loop
  that runs while lexemes arrive. The model bounds both by a number \<open>n\<close>: a loop makes
  at most \<open>n\<close> rounds and parentheses nest at most \<open>n\<close> deep, and \<open>None\<close> means that
  the bound was reached. Each of the three functions receives the one it calls as an
  argument (\<open>callTree\<close>, \<open>callSingleOp\<close>, \<open>callOp\<close>); \<open>getTree\<close> at the end
  closes the circle, with the nesting depth \<open>d\<close> left as its second argument.
\<close>

fun getSingleOp_exponents ::
  "nat \<Rightarrow> (string \<Rightarrow> int) option \<Rightarrow> ExprTree \<Rightarrow> int \<Rightarrow> TMathexprShared \<Rightarrow>
   (ExprTree \<times> int \<times> TMathexprShared) option" where
  "getSingleOp_exponents 0 gvi left lx m = None"
| "getSingleOp_exponents (Suc n) gvi left lx m =
    (if lx = 31 then
       (case getLex gvi m of
          (lx, m) \<Rightarrow>
          (case (if lx = 1 then (case getLex gvi m of (lx, m) \<Rightarrow> (True, lx, m))
                 else (False, lx, m))
           of (bracket, lx, m) \<Rightarrow>
             if lx \<noteq> 7 then Some (NullTree, lx, m\<lparr>Err := 1\<rparr>)
             else
               (let right = TreeNode lx (- 1) (Fvalue m) NullTree NullTree;
                    node = TreeNode 31 (- 1) (Fin 0) left right;
                    left = node
                in if bracket then
                     (case getLex gvi m of
                        (lx, m) \<Rightarrow>
                          if lx \<noteq> 2 then Some (NullTree, lx, m\<lparr>Err := 1\<rparr>)
                          else (case getLex gvi m of
                                  (lx, m) \<Rightarrow> getSingleOp_exponents n gvi left lx m))
                   else (case getLex gvi m of
                           (lx, m) \<Rightarrow> getSingleOp_exponents n gvi left lx m))))
     else Some (left, lx, m))"

definition getSingleOp ::
  "nat \<Rightarrow> (TMathexprShared \<Rightarrow> (ExprTree \<times> TMathexprShared) option) \<Rightarrow>
   (string \<Rightarrow> int) option \<Rightarrow> int \<Rightarrow> TMathexprShared \<Rightarrow>
   (ExprTree \<times> int \<times> TMathexprShared) option" where
  "getSingleOp n callTree gvi lx m =
    (if lx = 1 then
       (case callTree (m\<lparr>Bc := Bc m + 1\<rparr>) of
          None \<Rightarrow> None
        | Some (left, m) \<Rightarrow>
            (case getLex gvi m of (lx, m) \<Rightarrow> getSingleOp_exponents n gvi left lx m))
     else if lx < 7 \<or> lx = 9 \<or> lx > 30 then Some (NullTree, lx, m\<lparr>Err := 1\<rparr>)
     else
       (let opcode = lx in
        if lx = 7 \<or> lx = 8 then
          (let left = TreeNode opcode (if lx = 8 then Ivar m else - 1)
                        (if lx = 7 then Fvalue m else Fin 0) NullTree NullTree
           in case getLex gvi m of (lx, m) \<Rightarrow> getSingleOp_exponents n gvi left lx m)
        else
          (case getLex gvi m of
             (lx, m) \<Rightarrow>
               if lx \<noteq> 1 then Some (NullTree, lx, m\<lparr>Err := 1\<rparr>)
               else
                 (case callTree (m\<lparr>Bc := Bc m + 1\<rparr>) of
                    None \<Rightarrow> None
                  | Some (sub, m) \<Rightarrow>
                      (let left = TreeNode opcode (- 1) (Fin 0) sub NullTree
                       in case getLex gvi m of
                            (lx, m) \<Rightarrow> getSingleOp_exponents n gvi left lx m)))))"

fun getOp_factors ::
  "nat \<Rightarrow> (int \<Rightarrow> TMathexprShared \<Rightarrow> (ExprTree \<times> int \<times> TMathexprShared) option) \<Rightarrow>
   (string \<Rightarrow> int) option \<Rightarrow> ExprTree \<Rightarrow> int \<Rightarrow> TMathexprShared \<Rightarrow>
   (ExprTree \<times> int \<times> TMathexprShared) option" where
  "getOp_factors 0 callSingleOp gvi left lx m = None"
| "getOp_factors (Suc n) callSingleOp gvi left lx m =
    (if lx = 5 \<or> lx = 6 then
       (let opcode = lx in
        case getLex gvi m of
          (lx, m) \<Rightarrow>
          (case callSingleOp lx m of
             None \<Rightarrow> None
           | Some (right, lx, m) \<Rightarrow>
               if Err m \<noteq> 0 then Some (NullTree, lx, m)
               else getOp_factors n callSingleOp gvi
                      (TreeNode opcode (- 1) (Fin 0) left right) lx m))
     else Some (left, lx, m))"

definition getOp ::
  "nat \<Rightarrow> (int \<Rightarrow> TMathexprShared \<Rightarrow> (ExprTree \<times> int \<times> TMathexprShared) option) \<Rightarrow>
   (string \<Rightarrow> int) option \<Rightarrow> TMathexprShared \<Rightarrow>
   (ExprTree \<times> int \<times> TMathexprShared) option" where
  "getOp n callSingleOp gvi m =
    (case getLex gvi m of
       (lx, m) \<Rightarrow>
       (case (if PrevLex m = 0 \<or> PrevLex m = 1 then
                (if lx = 4 then (case getLex gvi m of (lx, m) \<Rightarrow> (True, lx, m))
                 else if lx = 3 then (case getLex gvi m of (lx, m) \<Rightarrow> (False, lx, m))
                 else (False, lx, m))
              else (False, lx, m))
        of (neg, lx, m) \<Rightarrow>
          (case callSingleOp lx m of
             None \<Rightarrow> None
           | Some (left, lx, m) \<Rightarrow>
               (case getOp_factors n callSingleOp gvi left lx m of
                  None \<Rightarrow> None
                | Some (left, lx, m) \<Rightarrow>
                    if neg then
                      (if Err m \<noteq> 0 then Some (NullTree, lx, m)
                       else Some (TreeNode 9 (- 1) (Fin 0) left NullTree, lx, m))
                    else Some (left, lx, m)))))"

fun getTree_terms ::
  "nat \<Rightarrow> (TMathexprShared \<Rightarrow> (ExprTree \<times> int \<times> TMathexprShared) option) \<Rightarrow>
   ExprTree \<Rightarrow> int \<Rightarrow> TMathexprShared \<Rightarrow> (ExprTree \<times> TMathexprShared) option" where
  "getTree_terms 0 callOp left lx m = None"
| "getTree_terms (Suc n) callOp left lx m =
    (if lx = 0 \<or> lx = 2 then Some (left, if lx = 2 then m\<lparr>Bc := Bc m - 1\<rparr> else m)
     else if lx \<noteq> 3 \<and> lx \<noteq> 4 then Some (left, m\<lparr>Err := 1\<rparr>)
     else
       (let opcode = lx in
        case callOp m of
          None \<Rightarrow> None
        | Some (right, lx, m) \<Rightarrow>
            if Err m \<noteq> 0 then Some (left, m)
            else getTree_terms n callOp (TreeNode opcode (- 1) (Fin 0) left right) lx m))"

fun getTree ::
  "nat \<Rightarrow> nat \<Rightarrow> (string \<Rightarrow> int) option \<Rightarrow> TMathexprShared \<Rightarrow>
   (ExprTree \<times> TMathexprShared) option" where
  "getTree n 0 gvi m = None"
| "getTree n (Suc d) gvi m =
    (case getOp n (getSingleOp n (getTree n d gvi) gvi) gvi m of
       None \<Rightarrow> None
     | Some (left, lx, m) \<Rightarrow>
         getTree_terms n (getOp n (getSingleOp n (getTree n d gvi) gvi) gvi) left lx m)"

text \<open>The tree in postfix order: left subtree, right subtree, node.\<close>

fun traverseTree :: "ExprTree \<Rightarrow> MathExpr list" where
  "traverseTree NullTree = []"
| "traverseTree (TreeNode oc iv fv left right) =
     traverseTree left @ traverseTree right @ [\<lparr>opcode = oc, ivar = iv, fvalue = fv\<rparr>]"

text \<open>
  \<open>mathexpr_create\<close> returns the program, empty for the null pointer, and the parser
  state it leaves in the project.
\<close>

definition mathexpr_create ::
  "nat \<Rightarrow> TMathexprShared \<Rightarrow> string \<Rightarrow> (string \<Rightarrow> int) option \<Rightarrow>
   (MathExpr list \<times> TMathexprShared) option" where
  "mathexpr_create n m formula getVar =
    (let m = m\<lparr>Err := 0\<rparr>;
         m = m\<lparr>PrevLex := 0\<rparr>;
         m = m\<lparr>CurLex := 0\<rparr>;
         m = m\<lparr>S := formula\<rparr>;
         m = m\<lparr>Len := int (length (S m))\<rparr>;
         m = m\<lparr>Pos := 0\<rparr>;
         m = m\<lparr>Bc := 0\<rparr>
     in case getTree n n getVar m of
          None \<Rightarrow> None
        | Some (tree, m) \<Rightarrow>
            Some (if Bc m = 0 \<and> Err m = 0 then traverseTree tree else [], m))"

section \<open>Example inputs\<close>

text \<open>
  A single conduit between two junctions, one barrel, 16.1 ft long, flowing at 1 cfs
  against a head that is 1 ft higher at the downstream end. The helper functions are
  the simplest ones: a cross section whose area equals the depth, with top width and
  hydraulic radius 1, a Froude number of 0, no losses, no flap gate, no culvert.
\<close>

definition ex_headers :: THeaders where
  "ex_headers = \<lparr>FUDGE = 1 / 10000, GRAVITY = 161 / 5, FORCE_MAIN = 6\<rparr>"

definition ex_helpers :: THelpers where
  "ex_helpers =
    \<lparr>xsect_getAofY = (\<lambda>xs y. y),
     xsect_getWofY = (\<lambda>xs y. 1),
     xsect_getRofY = (\<lambda>xs y. 1),
     xsect_isOpen = (\<lambda>t. False),
     link_getLength = (\<lambda>j. 100),
     link_getFroude = (\<lambda>j v y. 0),
     link_getYnorm = (\<lambda>j q. 1),
     link_getYcrit = (\<lambda>j q. 1),
     link_getLossRate = (\<lambda>j q dt. 0),
     link_setFlapGate = (\<lambda>j n1 n2 q. False),
     link_getFullState = (\<lambda>x y z. 0),
     forcemain_getFricSlope = (\<lambda>j v r. 0),
     culvert_getInflow = (\<lambda>j q h. (q, False))\<rparr>"

definition ex_xsect :: TXsect where
  "ex_xsect = \<lparr>type_xsect = 1, culvertCode = 0, yFull = 2, aFull = 2\<rparr>"

definition ex_link :: TLink where
  "ex_link =
    \<lparr>node1 = 0, node2 = 1, subIndex = 0, offset1 = 0, offset2 = 0, xsect = ex_xsect,
     setting = 1, oldFlow = 1, qLimit = 0, cLossInlet = 0, cLossOutlet = 0, cLossAvg = 0,
     flowClass = SUBCRITICAL, froude = 0, dqdh = 0, newDepth_link = 1, newVolume = 100,
     newFlow = 1, surfArea1 = 0, surfArea2 = 0, inletControl = False, normalFlow = False\<rparr>"

definition ex_conduit :: TConduit where
  "ex_conduit =
    \<lparr>barrels = 1, modLength = 161 / 10, roughFactor = 0, beta = 1, hasLosses = False,
     q1 = 1, q2 = 1, a1 = 1, a2 = 1, fullState = 0\<rparr>"

definition ex_node :: "nat \<Rightarrow> TNode" where
  "ex_node n =
    (if n = 0 then \<lparr>type_node = JUNCTION, invertElev = 0, newDepth_node = 1\<rparr>
     else \<lparr>type_node = JUNCTION, invertElev = 1, newDepth_node = 1\<rparr>)"

definition ex_project :: SWMM_Project where
  "ex_project =
    \<lparr>Link = (\<lambda>j. ex_link), Conduit = (\<lambda>k. ex_conduit), Node = ex_node,
     InertDamping = PARTIAL_DAMPING, NormalFlowLtd = SLOPE\<rparr>"

text \<open>The same conduit closed by a control action.\<close>

definition ex_closed_project :: SWMM_Project where
  "ex_closed_project = upd_Link ex_project 0 (\<lambda>l. l\<lparr>setting := 0\<rparr>)"

text \<open>
  The same conduit between two outfalls holding 1 ft of water, its upstream end 2 ft
  above the invert of the upstream outfall.
\<close>

definition ex_outfall_project :: SWMM_Project where
  "ex_outfall_project =
    ex_project\<lparr>Link := (\<lambda>j. ex_link\<lparr>offset1 := 2\<rparr>),
               Node := (\<lambda>n. \<lparr>type_node = OUTFALL, invertElev = 0, newDepth_node = 1\<rparr>)\<rparr>"







text \<open>A parser state as a first call finds it.\<close>

definition ex_parser_state :: TMathexprShared where
  "ex_parser_state =
    \<lparr>Err = 0, Bc = 0, PrevLex = 0, CurLex = 0, Len = 0, Pos = 0, S = [], Token = [],
     Ivar = 0, Fvalue = Fin 0\<rparr>"

lemmas ex_defs = ex_headers_def ex_helpers_def ex_xsect_def ex_link_def ex_conduit_def
  ex_node_def ex_project_def


lemmas solver_defs = dwflow_findConduitFlow_def dwflow_momentum_def conduitHeads_def momentumFlow_def findSurfArea_def
  getFlowClass_def getArea_def getHydRad_def getWidth_def flowLimitation_def
  checkNormalFlow_def underRelaxation_def userFlowLimit_def dryNodeLimit_def
  findLocalLosses_def upd_Link_def upd_Conduit_def MAXVELOCITY_def SGN_def Let_def

lemmas parser_defs = mathexpr_create_def getTree.simps getOp_def getSingleOp_def
  getLex_def getLex_spaces.simps getOperand_def charAt_def
  isLetter_def isDigit_def getNumber_def getNumber_digits.simps getToken_def getToken_loop.simps
  getMathFunc_def MathFunc_def getVariable_def toupper_def atof_def digitsValue_def Let_def

lemmas eval_defs = mathexpr_eval_def eval_node_def eval_unary_def eval_binary_def
  eval_push_def MAX_STACK_SIZE_def

section \<open>Properties of the flow classifier and the surface areas\<close>

text \<open>
  C6. The classifier is pure: whatever its arguments, the project it leaves behind is
  the project it was given, so no field of a link, conduit or node has changed. Its
  results are the class and the values of \<open>yC\<close>, \<open>yN\<close> and \<open>fasnh\<close>.
\<close>

theorem getFlowClass_leaves_project_unchanged:
  "fst (getFlowClass c hp sp j q h1 h2 y1 y2 yC yN) = sp"
  by (simp add: getFlowClass_def Let_def)

theorem getFlowClass_leaves_project_unchanged_witness:
  "fst (getFlowClass ex_headers ex_helpers ex_project 0 1 1 2 1 1 1 1) = ex_project"
  using getFlowClass_leaves_project_unchanged [of ex_headers ex_helpers ex_project 0 1 1 2 1 1 1 1]
  by simp

text \<open>
  C3, as the code has it. With the upstream end dry and the downstream end wet
  (\<open>y1 \<le> FUDGE < y2\<close>) the class is \<open>UP_DRY\<close> exactly when the downstream head is
  below the invert of the node plus the link's own offset \<open>offset1\<close>, the elevation of
  the conduit's upstream invert. The offset reduced by an outfall's depth is not used
  in this test.
\<close>

theorem getFlowClass_UP_DRY_raw_offset:
  assumes "y1 \<le> FUDGE c" and "FUDGE c < y2"
  shows "fst (snd (getFlowClass c hp sp j q h1 h2 y1 y2 yC yN)) = UP_DRY \<longleftrightarrow>
         h2 < invertElev (Node sp (node1 (Link sp j))) + offset1 (Link sp j)"
  using assms by (simp add: getFlowClass_def Let_def)

theorem getFlowClass_UP_DRY_raw_offset_witness:
  "1 / 10000 \<le> FUDGE ex_headers \<and> FUDGE ex_headers < 3 / 2 \<and>
   fst (snd (getFlowClass ex_headers ex_helpers ex_outfall_project 0 0 2 (3 / 2)
              (1 / 10000) (3 / 2) 1 1)) = UP_DRY \<and>
   3 / 2 < invertElev (Node ex_outfall_project (node1 (Link ex_outfall_project 0))) +
           offset1 (Link ex_outfall_project 0)"
  using getFlowClass_UP_DRY_raw_offset
          [of "1 / 10000" ex_headers "3 / 2" ex_helpers ex_outfall_project 0 0 2 "3 / 2" 1 1]
  by (simp add: ex_outfall_project_def ex_defs)

text \<open>
  C3 as stated fails. The upstream node is an outfall 1 ft deep and the link's offset
  is 2 ft, so the reduced offset is 1 ft. A downstream head of 1.5 ft is not below
  invert plus reduced offset, and yet the class is \<open>UP_DRY\<close>.
\<close>

theorem getFlowClass_UP_DRY_reduced_offset_counterexample:
  "1 / 10000 \<le> FUDGE ex_headers \<and> FUDGE ex_headers < 3 / 2 \<and>
   type_node (Node ex_outfall_project (node1 (Link ex_outfall_project 0))) = OUTFALL \<and>
   fst (snd (getFlowClass ex_headers ex_helpers ex_outfall_project 0 0 2 (3 / 2)
              (1 / 10000) (3 / 2) 1 1)) = UP_DRY \<and>
   \<not> 3 / 2 < invertElev (Node ex_outfall_project (node1 (Link ex_outfall_project 0))) +
             max 0 (offset1 (Link ex_outfall_project 0) -
                    newDepth_node (Node ex_outfall_project (node1 (Link ex_outfall_project 0))))"
  by (simp add: ex_outfall_project_def ex_defs getFlowClass_def Let_def)

lemma getFlowClass_fasnh_range:
  "0 \<le> snd (snd (snd (snd (getFlowClass c hp sp j q h1 h2 y1 y2 yC yN)))) \<and>
   snd (snd (snd (snd (getFlowClass c hp sp j q h1 h2 y1 y2 yC yN)))) \<le> 1"
  by (auto simp add: getFlowClass_def Let_def divide_le_eq_1 min_def max_def)

lemma getWidth_nonneg:
  "\<forall>xs y. 0 \<le> xsect_getWofY hp xs y \<Longrightarrow> 0 \<le> getWidth hp xs y"
  by (simp add: getWidth_def Let_def)

text \<open>
  C10. If the top width function returns no negative value, the length is not negative
  and FUDGE is not negative, then both surface areas that \<open>findSurfArea\<close> writes to
  the link are non-negative, whatever the flow class; and the fraction \<open>fasnh\<close> that
  \<open>getFlowClass\<close> returns lies between 0 and 1.
\<close>

theorem findSurfArea_areas_nonneg:
  assumes W: "\<forall>xs y. 0 \<le> xsect_getWofY hp xs y" and L: "0 \<le> len" and F: "0 \<le> FUDGE c"
  shows "0 \<le> surfArea1 (Link (fst (findSurfArea c hp sp j q len h1 h2 y1 y2)) j) \<and>
         0 \<le> surfArea2 (Link (fst (findSurfArea c hp sp j q len h1 h2 y1 y2)) j) \<and>
         0 \<le> snd (snd (snd (snd (getFlowClass c hp sp j q h1 h2 y1 y2 yC yN)))) \<and>
         snd (snd (snd (snd (getFlowClass c hp sp j q h1 h2 y1 y2 yC yN)))) \<le> 1"
proof -
  obtain sp' fc yC' yN' fasnh where
    g: "getFlowClass c hp sp j q h1 h2 y1 y2 ((y1 + y2) / 2) ((y1 + y2) / 2) =
        (sp', fc, yC', yN', fasnh)"
    by (metis prod_cases5)
  have fa: "0 \<le> fasnh"
    using getFlowClass_fasnh_range [of c hp sp j q h1 h2 y1 y2 "(y1 + y2) / 2" "(y1 + y2) / 2"] g
    by simp
  note w = getWidth_nonneg [OF W]
  have "0 \<le> surfArea1 (Link (fst (findSurfArea c hp sp j q len h1 h2 y1 y2)) j) \<and>
        0 \<le> surfArea2 (Link (fst (findSurfArea c hp sp j q len h1 h2 y1 y2)) j)"
    using fa L F w
    by (cases fc) (simp_all add: findSurfArea_def g Let_def upd_Link_def)
  then show ?thesis
    using getFlowClass_fasnh_range [of c hp sp j q h1 h2 y1 y2 yC yN] by simp
qed

theorem findSurfArea_areas_nonneg_witness:
  "(\<forall>xs y. 0 \<le> xsect_getWofY ex_helpers xs y) \<and> (0::real) \<le> 161 / 10 \<and>
   0 \<le> FUDGE ex_headers \<and>
   0 \<le> surfArea1 (Link (fst (findSurfArea ex_headers ex_helpers ex_project 0 1 (161 / 10) 1 2 1 1)) 0) \<and>
   0 \<le> surfArea2 (Link (fst (findSurfArea ex_headers ex_helpers ex_project 0 1 (161 / 10) 1 2 1 1)) 0) \<and>
   0 \<le> snd (snd (snd (snd (getFlowClass ex_headers ex_helpers ex_project 0 1 1 2 1 1 1 1)))) \<and>
   snd (snd (snd (snd (getFlowClass ex_headers ex_helpers ex_project 0 1 1 2 1 1 1 1)))) \<le> 1"
proof -
  have W: "\<forall>xs y. 0 \<le> xsect_getWofY ex_helpers xs y" by (simp add: ex_defs)
  have L: "(0::real) \<le> 161 / 10" by simp
  have F: "0 \<le> FUDGE ex_headers" by (simp add: ex_defs)
  show ?thesis
    using findSurfArea_areas_nonneg [OF W L F, of ex_project 0 1 1 2 1 1 1 1] W F by simp
qed

section \<open>Properties of the conduit flow update\<close>

text \<open>
  C7. \<open>checkNormalFlow\<close> looks at two triggers. The slope trigger is \<open>y1 < y2\<close> when
  the normal flow option is SLOPE or BOTH or an end node is an outfall. The Froude
  trigger is a Froude number of at least 1 at the upstream end when the option is FROUDE
  or BOTH, no end node is an outfall and both depths exceed FUDGE. If a trigger holds
  and the normal flow \<open>qNorm = beta * a1 * r1 powr (2/3)\<close> is below \<open>q\<close>, the function
  returns \<open>qNorm\<close> and sets the link's \<open>normalFlow\<close> flag; otherwise it returns \<open>q\<close>
  and leaves the project alone. The result never exceeds \<open>q\<close>.
\<close>

theorem checkNormalFlow_result:
  assumes O: "hasOutfall = (type_node (Node sp (node1 (Link sp j))) = OUTFALL \<or>
                            type_node (Node sp (node2 (Link sp j))) = OUTFALL)"
    and T1: "slopeTrigger =
               ((NormalFlowLtd sp = SLOPE \<or> NormalFlowLtd sp = BOTH \<or> hasOutfall) \<and> y1 < y2)"
    and T2: "froudeTrigger =
               ((NormalFlowLtd sp = FROUDE \<or> NormalFlowLtd sp = BOTH) \<and> \<not> hasOutfall \<and>
                y1 > FUDGE c \<and> y2 > FUDGE c \<and> link_getFroude hp j (q / a_1) y1 \<ge> 1)"
    and N: "qNorm = beta (Conduit sp (subIndex (Link sp j))) * a_1 * (r1 powr (2 / 3))"
  shows "((slopeTrigger \<or> froudeTrigger) \<and> qNorm < q \<longrightarrow>
            checkNormalFlow c hp sp j q y1 y2 a_1 r1 =
              (qNorm, upd_Link sp j (\<lambda>l. l\<lparr>normalFlow := True\<rparr>))) \<and>
         (\<not> ((slopeTrigger \<or> froudeTrigger) \<and> qNorm < q) \<longrightarrow>
            checkNormalFlow c hp sp j q y1 y2 a_1 r1 = (q, sp)) \<and>
         fst (checkNormalFlow c hp sp j q y1 y2 a_1 r1) \<le> q"
  unfolding O T1 T2 N checkNormalFlow_def Let_def
  by auto

theorem checkNormalFlow_result_witness:
  "checkNormalFlow ex_headers ex_helpers ex_project 0 5 1 2 1 1 =
     (1, upd_Link ex_project 0 (\<lambda>l. l\<lparr>normalFlow := True\<rparr>)) \<and>
   checkNormalFlow ex_headers ex_helpers ex_project 0 5 2 1 1 1 = (5, ex_project) \<and>
   fst (checkNormalFlow ex_headers ex_helpers ex_project 0 5 1 2 1 1) \<le> 5"
  using checkNormalFlow_result
          [OF refl refl refl refl, of ex_project 0 1 2 ex_headers ex_helpers 5 1 1]
        checkNormalFlow_result
          [OF refl refl refl refl, of ex_project 0 2 1 ex_headers ex_helpers 5 1 1]
  by (simp add: ex_defs)

text \<open>
  C1. Let \<open>findSurfArea\<close>, called as the update calls it, leave the project \<open>sp1\<close>
  and the depths \<open>y1'\<close> and \<open>y2'\<close>, and let \<open>aMid\<close> be the area at the mean of the two
  depths. If the flow class of the link in \<open>sp1\<close> is DRY, UP_DRY or DN_DRY, or the
  link's setting is 0, or \<open>aMid\<close> is at most FUDGE, then the update leaves a new flow
  of exactly 0, both conduit flows 0, a Froude number 0, and
  \<open>dqdh = GRAVITY * dt * aMid / modLength * barrels\<close>.
\<close>

theorem dwflow_early_out_zero_flow:
  assumes H: "conduitHeads c sp j = (h1, h2, y1, y2)"
    and S: "findSurfArea c hp sp j (q1 (Conduit sp (subIndex (Link sp j))))
              (modLength (Conduit sp (subIndex (Link sp j)))) h1 h2 y1 y2 =
            (sp1, h1', h2', y1', y2')"
    and A: "aMid = getArea hp (xsect (Link sp j)) (0.5 * (y1' + y2'))"
    and E: "flowClass (Link sp1 j) = DRY \<or> flowClass (Link sp1 j) = UP_DRY \<or>
            flowClass (Link sp1 j) = DN_DRY \<or> setting (Link sp j) = 0 \<or> aMid \<le> FUDGE c"
    and R: "sp' = dwflow_findConduitFlow c hp sp j steps omega dt"
  shows "newFlow (Link sp' j) = 0 \<and>
         q1 (Conduit sp' (subIndex (Link sp j))) = 0 \<and>
         q2 (Conduit sp' (subIndex (Link sp j))) = 0 \<and>
         froude (Link sp' j) = 0 \<and>
         dqdh (Link sp' j) =
           GRAVITY c * dt * aMid / modLength (Conduit sp (subIndex (Link sp j))) *
           real (barrels (Conduit sp (subIndex (Link sp j))))"
proof -
  have eo: "(flowClass (Link sp1 j) = DRY \<or> flowClass (Link sp1 j) = UP_DRY \<or>
             flowClass (Link sp1 j) = DN_DRY \<or>
             (if setting (Link sp j) = 0 then True else False) \<or>
             getArea hp (xsect (Link sp j)) (0.5 * (y1' + y2')) \<le> FUDGE c) = True"
    using E A by auto
  show ?thesis
    unfolding R dwflow_findConduitFlow_def Let_def H S prod.case eo if_True A
    by (simp add: upd_Link_def upd_Conduit_def)
qed

theorem dwflow_early_out_zero_flow_witness:
  "setting (Link ex_closed_project 0) = 0 \<and>
   newFlow (Link (dwflow_findConduitFlow ex_headers ex_helpers ex_closed_project 0 1 (1 / 2) 1) 0) = 0 \<and>
   q1 (Conduit (dwflow_findConduitFlow ex_headers ex_helpers ex_closed_project 0 1 (1 / 2) 1) 0) = 0 \<and>
   q2 (Conduit (dwflow_findConduitFlow ex_headers ex_helpers ex_closed_project 0 1 (1 / 2) 1) 0) = 0 \<and>
   froude (Link (dwflow_findConduitFlow ex_headers ex_helpers ex_closed_project 0 1 (1 / 2) 1) 0) = 0 \<and>
   dqdh (Link (dwflow_findConduitFlow ex_headers ex_helpers ex_closed_project 0 1 (1 / 2) 1) 0) = 2"
proof -
  have H: "conduitHeads ex_headers ex_closed_project 0 = (1, 2, 1, 1)"
    by (simp add: ex_closed_project_def ex_defs solver_defs)
  have S: "findSurfArea ex_headers ex_helpers ex_closed_project 0
             (q1 (Conduit ex_closed_project (subIndex (Link ex_closed_project 0))))
             (modLength (Conduit ex_closed_project (subIndex (Link ex_closed_project 0)))) 1 2 1 1 =
           (fst (findSurfArea ex_headers ex_helpers ex_closed_project 0 1 (161 / 10) 1 2 1 1),
            1, 2, 1, 1)"
    by (simp add: ex_closed_project_def ex_defs solver_defs)
  have A: "(1::real) = getArea ex_helpers (xsect (Link ex_closed_project 0)) (0.5 * (1 + 1))"
    by (simp add: ex_closed_project_def ex_defs solver_defs)
  have E: "setting (Link ex_closed_project 0) = 0"
    by (simp add: ex_closed_project_def ex_defs solver_defs)
  show ?thesis
    using dwflow_early_out_zero_flow
            [OF H S A _ refl, where steps = 1 and omega = "1 / 2" and dt = 1] E
    by (simp add: ex_closed_project_def ex_defs upd_Link_def)
qed

text \<open>
  The least positive double is positive and far below the snap value 0.001.
\<close>

lemma DBL_TRUE_MIN_pos: "0 < DBL_TRUE_MIN"
  by (simp add: DBL_TRUE_MIN_def)

lemma DBL_TRUE_MIN_small: "DBL_TRUE_MIN < 1 / 1000000"
proof -
  have "(1000000::real) < 2 ^ 20" by simp
  also have "\<dots> \<le> 2 ^ 1074" by (rule power_increasing) simp_all
  finally show ?thesis by (simp add: DBL_TRUE_MIN_def field_simps)
qed

text \<open>
  The flow after under-relaxation has the sign of the last iterate, or its product with
  the last iterate underflows, or it is the snapped value of magnitude 0.001. The three
  blocks that follow move a flow towards 0 and never across it.
\<close>

lemma underRelaxation_sign:
  "0 < steps \<Longrightarrow> - (DBL_TRUE_MIN / 2) \<le> underRelaxation steps omega qLast q * qLast \<or>
                 \<bar>underRelaxation steps omega qLast q\<bar> = 0.001"
  by (auto simp add: underRelaxation_def Let_def SGN_def not_less)

lemma userFlowLimit_between:
  "(0 \<le> userFlowLimit sp j q \<and> userFlowLimit sp j q \<le> q) \<or>
   (q \<le> userFlowLimit sp j q \<and> userFlowLimit sp j q \<le> 0)"
  by (auto simp add: userFlowLimit_def SGN_def)

lemma dryNodeLimit_between:
  "0 \<le> FUDGE c \<Longrightarrow>
   (0 \<le> dryNodeLimit c sp n1 n2 q \<and> dryNodeLimit c sp n1 n2 q \<le> q) \<or>
   (q \<le> dryNodeLimit c sp n1 n2 q \<and> dryNodeLimit c sp n1 n2 q \<le> 0)"
  by (auto simp add: dryNodeLimit_def Let_def)

lemma between_sign:
  fixes x y z t e :: real
  assumes B: "(0 \<le> y \<and> y \<le> x) \<or> (x \<le> y \<and> y \<le> 0)"
    and t: "0 \<le> t"
    and P: "- t \<le> x * z \<or> \<bar>x\<bar> \<le> e"
  shows "- t \<le> y * z \<or> \<bar>y\<bar> \<le> e"
proof (cases "\<bar>x\<bar> \<le> e")
  case True
  then show ?thesis using B by auto
next
  case False
  then have xz: "- t \<le> x * z" using P by simp
  have "\<bar>y * z\<bar> \<le> \<bar>x * z\<bar>"
    unfolding abs_mult using B by (intro mult_right_mono) auto
  moreover have "0 \<le> x * z \<Longrightarrow> 0 \<le> y * z"
    using B by (auto simp add: zero_le_mult_iff)
  ultimately show ?thesis using xz t by (cases "0 \<le> x * z") auto
qed

text \<open>
  The flow that the update stores in the conduit is 0 (the early return), or the result
  of the last four blocks applied to some flow.
\<close>

lemma stored_q1:
  "q1 (Conduit (dwflow_findConduitFlow c hp sp j steps omega dt) (subIndex (Link sp j))) = 0 \<or>
   (\<exists>q spx. q1 (Conduit (dwflow_findConduitFlow c hp sp j steps omega dt) (subIndex (Link sp j))) =
      dryNodeLimit c spx (node1 (Link sp j)) (node2 (Link sp j))
        (if link_setFlapGate hp j (node1 (Link sp j)) (node2 (Link sp j))
              (userFlowLimit spx j (underRelaxation steps omega (q1 (Conduit sp (subIndex (Link sp j)))) q))
         then 0
         else userFlowLimit spx j (underRelaxation steps omega (q1 (Conduit sp (subIndex (Link sp j)))) q)))"
proof -
  obtain h1 h2 y1 y2 where H: "conduitHeads c sp j = (h1, h2, y1, y2)"
    by (metis prod_cases4)
  obtain sp1 h1' h2' y1' y2' where
    S: "findSurfArea c hp sp j (q1 (Conduit sp (subIndex (Link sp j))))
          (modLength (Conduit sp (subIndex (Link sp j)))) h1 h2 y1 y2 = (sp1, h1', h2', y1', y2')"
    by (metis prod_cases5)
  let ?eo = "flowClass (Link sp1 j) = DRY \<or> flowClass (Link sp1 j) = UP_DRY \<or>
             flowClass (Link sp1 j) = DN_DRY \<or>
             (if setting (Link sp j) = 0 then True else False) \<or>
             getArea hp (xsect (Link sp j)) (0.5 * (y1' + y2')) \<le> FUDGE c"
  show ?thesis
  proof (cases ?eo)
    case True
    then have eo: "?eo = True" by simp
    show ?thesis
      unfolding dwflow_findConduitFlow_def Let_def H S prod.case eo if_True
      by (simp add: upd_Link_def upd_Conduit_def)
  next
    case False
    then have eo: "?eo = False" by simp
    show ?thesis
      unfolding dwflow_findConduitFlow_def Let_def H S prod.case eo if_False
      apply (split prod.split)
      apply (intro allI impI)
      apply (split prod.split)
      apply (intro allI impI)
      apply (rule disjI2)
      apply (rule_tac x = x1a in exI)
      apply (rule_tac x = x2a in exI)
      apply (simp (no_asm) add: upd_Link_def upd_Conduit_def)
      done
  qed
qed

text \<open>
  C2, as the code has it. Under-relaxation is applied only when \<open>steps > 0\<close>, the snap
  value is the literal 0.001, not FUDGE, and the snap is skipped when the product of the
  relaxed flow and the last iterate underflows to zero. So: for \<open>steps > 0\<close>, whenever
  the stored flow and the last iterate have strictly opposite signs, the magnitude of
  the stored flow is at most 0.001, or the magnitude of their product is at most one
  half of the least positive double.
\<close>

theorem dwflow_sign_reversal_bounded:
  assumes st: "0 < steps" and F: "0 \<le> FUDGE c"
    and R: "sp' = dwflow_findConduitFlow c hp sp j steps omega dt"
    and opp: "q1 (Conduit sp' (subIndex (Link sp j))) * q1 (Conduit sp (subIndex (Link sp j))) < 0"
  shows "\<bar>q1 (Conduit sp' (subIndex (Link sp j)))\<bar> \<le> 0.001 \<or>
         \<bar>q1 (Conduit sp' (subIndex (Link sp j))) * q1 (Conduit sp (subIndex (Link sp j)))\<bar> \<le>
           DBL_TRUE_MIN / 2"
proof -
  define qLast where "qLast = q1 (Conduit sp (subIndex (Link sp j)))"
  define n1 where "n1 = node1 (Link sp j)"
  define n2 where "n2 = node2 (Link sp j)"
  define T where "T = DBL_TRUE_MIN / 2"
  have T: "0 \<le> T" using DBL_TRUE_MIN_pos by (simp add: T_def)
  have nz: "q1 (Conduit sp' (subIndex (Link sp j))) \<noteq> 0" using opp by auto
  from stored_q1 [of c hp sp j steps omega dt] nz obtain q spx where
    st1: "q1 (Conduit sp' (subIndex (Link sp j))) =
      dryNodeLimit c spx n1 n2
        (if link_setFlapGate hp j n1 n2 (userFlowLimit spx j (underRelaxation steps omega qLast q))
         then 0 else userFlowLimit spx j (underRelaxation steps omega qLast q))"
    unfolding R qLast_def n1_def n2_def by blast
  define r where "r = underRelaxation steps omega qLast q"
  define u where "u = userFlowLimit spx j r"
  define f where "f = (if link_setFlapGate hp j n1 n2 u then 0 else u)"
  define d where "d = dryNodeLimit c spx n1 n2 f"
  have Pr: "- T \<le> r * qLast \<or> \<bar>r\<bar> \<le> 0.001"
    using underRelaxation_sign [OF st, of omega qLast q] by (auto simp add: r_def T_def)
  have Bu: "(0 \<le> u \<and> u \<le> r) \<or> (r \<le> u \<and> u \<le> 0)"
    unfolding u_def by (rule userFlowLimit_between)
  have Bf: "(0 \<le> f \<and> f \<le> u) \<or> (u \<le> f \<and> f \<le> 0)"
    unfolding f_def by auto
  have Bd: "(0 \<le> d \<and> d \<le> f) \<or> (f \<le> d \<and> d \<le> 0)"
    unfolding d_def by (rule dryNodeLimit_between [OF F])
  have Pu: "- T \<le> u * qLast \<or> \<bar>u\<bar> \<le> 0.001" by (rule between_sign [OF Bu T Pr])
  have Pf: "- T \<le> f * qLast \<or> \<bar>f\<bar> \<le> 0.001" by (rule between_sign [OF Bf T Pu])
  have Pd: "- T \<le> d * qLast \<or> \<bar>d\<bar> \<le> 0.001" by (rule between_sign [OF Bd T Pf])
  have "q1 (Conduit sp' (subIndex (Link sp j))) = d"
    using st1 by (simp add: d_def f_def u_def r_def)
  then show ?thesis using Pd opp by (auto simp add: qLast_def T_def)
qed

theorem dwflow_sign_reversal_bounded_witness:
  "(0::int) < 1 \<and> 0 \<le> FUDGE ex_headers \<and>
   q1 (Conduit (dwflow_findConduitFlow ex_headers ex_helpers ex_project 0 1 1 1) 0) *
     q1 (Conduit ex_project 0) < 0 \<and>
   (\<bar>q1 (Conduit (dwflow_findConduitFlow ex_headers ex_helpers ex_project 0 1 1 1) 0)\<bar> \<le> 0.001 \<or>
    \<bar>q1 (Conduit (dwflow_findConduitFlow ex_headers ex_helpers ex_project 0 1 1 1) 0) *
       q1 (Conduit ex_project 0)\<bar> \<le> DBL_TRUE_MIN / 2)"
proof -
  have F: "0 \<le> FUDGE ex_headers" by (simp add: ex_defs)
  have q: "q1 (Conduit (dwflow_findConduitFlow ex_headers ex_helpers ex_project 0 1 1 1) 0) = - (1 / 1000)"
    using DBL_TRUE_MIN_small by (simp add: ex_defs solver_defs)
  have k: "subIndex (Link ex_project 0) = 0" by (simp add: ex_defs)
  have l: "q1 (Conduit ex_project 0) = 1" by (simp add: ex_defs)
  show ?thesis
    using dwflow_sign_reversal_bounded [of 1 ex_headers _ ex_helpers ex_project 0 1 1, OF _ F refl]
    by (simp add: q k l F)
qed

text \<open>
  The exception is real. A last iterate equal to the least positive double and a new
  flow of -0.5, relaxed with \<open>omega = 1\<close>: the product is minus one half of the least
  positive double, the snap is skipped, and the flow stays -0.5.
\<close>

lemma underRelaxation_underflow:
  "underRelaxation 1 1 DBL_TRUE_MIN (- (1 / 2)) = - (1 / 2)"
  by (simp add: underRelaxation_def)

text \<open>
  C2 as stated fails. With \<open>steps = 0\<close> the example conduit goes from a flow of 1 to a
  stored flow of -1. With \<open>steps = 1\<close> and \<open>omega = 1\<close> the stored flow is the snapped
  value -0.001, whose magnitude is not FUDGE.
\<close>

theorem dwflow_sign_reversal_counterexample:
  "q1 (Conduit (dwflow_findConduitFlow ex_headers ex_helpers ex_project 0 0 (1 / 2) 1) 0) *
     q1 (Conduit ex_project 0) < 0 \<and>
   \<bar>q1 (Conduit (dwflow_findConduitFlow ex_headers ex_helpers ex_project 0 0 (1 / 2) 1) 0)\<bar> \<noteq>
     FUDGE ex_headers \<and>
   q1 (Conduit (dwflow_findConduitFlow ex_headers ex_helpers ex_project 0 1 1 1) 0) *
     q1 (Conduit ex_project 0) < 0 \<and>
   \<bar>q1 (Conduit (dwflow_findConduitFlow ex_headers ex_helpers ex_project 0 1 1 1) 0)\<bar> \<noteq>
     FUDGE ex_headers"
proof -
  have a: "q1 (Conduit (dwflow_findConduitFlow ex_headers ex_helpers ex_project 0 0 (1 / 2) 1) 0) = - 1"
    by (simp add: ex_defs solver_defs)
  have b: "q1 (Conduit (dwflow_findConduitFlow ex_headers ex_helpers ex_project 0 1 1 1) 0) =
           - (1 / 1000)"
    using DBL_TRUE_MIN_small by (simp add: ex_defs solver_defs)
  show ?thesis unfolding a b by (simp add: ex_defs)
qed

































section \<open>Properties of the expression evaluator\<close>

text \<open>
  C9. The empty program evaluates to 0, whatever the callback for the values of the
  variables: the bottom of the stack is initialised to 0, no node is executed, and 0 is
  not NaN.
\<close>

theorem mathexpr_eval_empty_program:
  "mathexpr_eval [] getVariableValue = Inr (Fin 0)"
  by (simp add: mathexpr_eval_def)

theorem mathexpr_eval_empty_program_witness:
  "mathexpr_eval [] None = Inr (Fin 0) \<and>
   mathexpr_eval [] (Some (\<lambda>i. Fin 5)) = Inr (Fin 0)"
  using mathexpr_eval_empty_program [of None]
        mathexpr_eval_empty_program [of "Some (\<lambda>i. Fin 5)"]
  by simp

text \<open>
  The protective tests of the opcodes LOG, SQRT and LOG10, as the code has them: LOG tests
  \<open>r1 <= 0\<close>, SQRT tests \<open>r1 < 0\<close>, and LOG10 tests \<open>r1 == 0\<close> only.
\<close>

lemma eval_node_LOG_nonpositive:
  assumes "opcode node = 17" and "d_le r1 (Fin 0)"
  shows "eval_node getVariableValue node (r1 # rest) = Inr (Fin 0 # rest)"
  using assms by (simp add: eval_node_def eval_unary_def)

lemma eval_node_SQRT_negative:
  assumes "opcode node = 16" and "d_less r1 (Fin 0)"
  shows "eval_node getVariableValue node (r1 # rest) = Inr (Fin 0 # rest)"
  using assms by (simp add: eval_node_def eval_unary_def)

lemma eval_node_LOG10_zero:
  assumes "opcode node = 27" and "d_eq r1 (Fin 0)"
  shows "eval_node getVariableValue node (r1 # rest) = Inr (Fin 0 # rest)"
  using assms by (simp add: eval_node_def eval_unary_def)

lemma eval_node_LOG10_negative:
  assumes "opcode node = 27" and "x < 0"
  shows "eval_node getVariableValue node (Fin x # rest) = Inr (NaN # rest)"
  using assms by (simp add: eval_node_def eval_unary_def)

text \<open>
  C4 at its failing input. LOG10 applied to -1 leaves NaN on the stack, not 0. In the
  program of the formula \<open>LOG10(-1)+5\<close> the NaN reaches the sum, and the final result
  is the 0 that replaces a NaN result; with LOG10 of a negative number yielding 0 the
  result would be 5.
\<close>

theorem mathexpr_eval_LOG10_negative:
  "eval_node getVariableValue \<lparr>opcode = 27, ivar = - 1, fvalue = Fin 0\<rparr> [Fin (- 1), Fin 0] =
     Inr [NaN, Fin 0] \<and>
   mathexpr_eval
     [\<lparr>opcode = 7, ivar = - 1, fvalue = Fin (- 1)\<rparr>,
      \<lparr>opcode = 27, ivar = - 1, fvalue = Fin 0\<rparr>,
      \<lparr>opcode = 7, ivar = - 1, fvalue = Fin 5\<rparr>,
      \<lparr>opcode = 3, ivar = - 1, fvalue = Fin 0\<rparr>] getVariableValue = Inr (Fin 0)"
  by (simp add: eval_defs)

text \<open>
  C5 at its failing inputs. For the formulas \<open>1E\<close> and \<open>1E+\<close> \<open>getNumber\<close> sets its
  local error flag and returns 0, the error flag of the parser stays 0, and
  \<open>mathexpr_create\<close> returns a program of one node: the number 0.
\<close>

theorem mathexpr_create_malformed_exponent:
  "map_option fst (mathexpr_create 3 ex_parser_state ''1E'' None) =
     Some [\<lparr>opcode = 7, ivar = - 1, fvalue = Fin 0\<rparr>] \<and>
   map_option fst (mathexpr_create 3 ex_parser_state ''1E+'' None) =
     Some [\<lparr>opcode = 7, ivar = - 1, fvalue = Fin 0\<rparr>] \<and>
   mathexpr_eval [\<lparr>opcode = 7, ivar = - 1, fvalue = Fin 0\<rparr>] None = Inr (Fin 0)"
  by (simp add: parser_defs eval_defs ex_parser_state_def numeral_eq_Suc)

end
